theory Spec2Isabelle
  imports Complex_Main "HOL-Library.Word"
begin

section \<open>Data model\<close>

text \<open>
  The two tools under \<^verbatim>\<open>Tools/imaging_viewer\<close> are embedded: \<^verbatim>\<open>imaging_viewer.py\<close>
  (the live tool) and \<^verbatim>\<open>point_cloud_viewer.py\<close> (definitions suffixed \<open>_pcv\<close>).

  Python integers are \<^typ>\<open>int\<close>. A numpy \<^verbatim>\<open>uint8\<close> image of shape (h, w, 3) is a list
  of h rows of w pixels, a pixel being three bytes. The exceptions a run can end with
  are values of \<open>error\<close>; \<open>Cv2_Error\<close> stands for the exception with which
  \<^verbatim>\<open>cv2.circle\<close> rejects its arguments, whose class depends on the OpenCV version.
\<close>

type_synonym pixel = "8 word \<times> 8 word \<times> 8 word"
type_synonym image = "pixel list list"

datatype error =
    SystemExit string
  | NameError string
  | TypeError string
  | ValueError string
  | OverflowError string
  | Cv2_Error string
  | NotFoundError string

section \<open>Floating-point numbers\<close>

text \<open>Rounding to the nearest integer, ties to even.\<close>

definition round_half_even :: "rat \<Rightarrow> int" where
  "round_half_even x =
     (let f = \<lfloor>x\<rfloor>; d = x - of_int f
      in if d < 1 / 2 then f
         else if 1 / 2 < d then f + 1
         else if even f then f else f + 1)"

text \<open>
  A Python float and a numpy \<^verbatim>\<open>float64\<close> are IEEE 754 doubles. A double is kept as
  its exact value, a rational, or as one of the infinities or NaN. The sign of zero is
  not kept: nothing modelled here depends on it.
\<close>

datatype float64 = Finite rat | PInf | NInf | NaN

definition pow2 :: "int \<Rightarrow> rat" where
  "pow2 k = (if 0 \<le> k then 2 ^ nat k else 1 / 2 ^ nat (- k))"

text \<open>The number of binary digits of a positive integer.\<close>

function bit_length :: "int \<Rightarrow> nat" where
  "bit_length a = (if a \<le> 0 then 0 else Suc (bit_length (a div 2)))"
  by pat_completeness auto
termination
  by (relation "measure nat") auto

declare bit_length.simps [simp del]

text \<open>The binary exponent of a positive rational \<open>q\<close>: the \<open>e\<close> with
  \<open>2 ^ e \<le> q < 2 ^ (e + 1)\<close>. The difference \<open>k\<close> of the bit lengths of numerator
  and denominator is \<open>e\<close> or \<open>e + 1\<close>.\<close>

definition ilog2 :: "rat \<Rightarrow> int" where
  "ilog2 q =
     (let (a, b) = quotient_of q;
          k = int (bit_length a) - int (bit_length b)
      in if pow2 k \<le> q then k else k - 1)"

text \<open>
  The double nearest to a rational, ties to even (the IEEE default rounding, by which
  every arithmetic operation on doubles rounds its exact result). The unit in the last
  place is \<open>2 ^ u\<close>: 53 significant bits, and never below \<open>2 ^ -1074\<close> (subnormal
  numbers). The result overflows to an infinity when the rounded value \<open>m * 2 ^ u\<close>
  reaches \<open>2 ^ 1024\<close>, that is when \<open>u\<close> exceeds 971, or equals it with \<open>m\<close> rounded
  up to \<open>2 ^ 53\<close>.
\<close>

definition round_double :: "rat \<Rightarrow> float64" where
  "round_double q =
     (if q = 0 then Finite 0
      else let u = max (ilog2 \<bar>q\<bar> - 52) (- 1074);
               m = round_half_even (q / pow2 u)
           in if 971 < u \<or> (u = 971 \<and> 2 ^ 53 \<le> \<bar>m\<bar>) then (if 0 < q then PInf else NInf)
              else Finite (of_int m * pow2 u))"

text \<open>A Python int used in float arithmetic.\<close>

definition float_of_int :: "int \<Rightarrow> float64" where
  "float_of_int i = round_double (of_int i)"

text \<open>Subtraction and division of doubles, as numpy computes them (no exception: an
  invalid operation gives NaN, a division by zero an infinity).\<close>

fun fsub :: "float64 \<Rightarrow> float64 \<Rightarrow> float64" where
  "fsub (Finite a) (Finite b) = round_double (a - b)"
| "fsub NaN y = NaN"
| "fsub x NaN = NaN"
| "fsub PInf PInf = NaN"
| "fsub NInf NInf = NaN"
| "fsub PInf y = PInf"
| "fsub NInf y = NInf"
| "fsub x PInf = NInf"
| "fsub x NInf = PInf"

fun fdiv :: "float64 \<Rightarrow> float64 \<Rightarrow> float64" where
  "fdiv (Finite a) (Finite b) =
     (if b = 0 then (if a = 0 then NaN else if 0 < a then PInf else NInf)
      else round_double (a / b))"
| "fdiv NaN y = NaN"
| "fdiv x NaN = NaN"
| "fdiv (Finite a) y = Finite 0"
| "fdiv PInf (Finite b) = (if 0 \<le> b then PInf else NInf)"
| "fdiv NInf (Finite b) = (if 0 \<le> b then NInf else PInf)"
| "fdiv x y = NaN"

text \<open>
  Python's \<^verbatim>\<open>int(x)\<close> on a float truncates toward zero; it raises
  \<open>OverflowError\<close> on an infinity and \<open>ValueError\<close> on NaN.
\<close>

fun py_int :: "float64 \<Rightarrow> error + int" where
  "py_int (Finite q) = Inr (if 0 \<le> q then \<lfloor>q\<rfloor> else \<lceil>q\<rceil>)"
| "py_int NaN = Inl (ValueError ''cannot convert float NaN to integer'')"
| "py_int x = Inl (OverflowError ''cannot convert float infinity to integer'')"

section \<open>Decoded records\<close>

text \<open>The attributes of a decoded record that the tools read: both \<^verbatim>\<open>RadarImage\<close> and
  \<^verbatim>\<open>RadarPointCloud\<close> carry \<^verbatim>\<open>frame_id\<close> and \<^verbatim>\<open>timestamp\<close>. A timestamp is a
  finite double, kept as its exact value; the coordinates of a point are any doubles.\<close>

record radar_meta =
  frame_id :: int
  timestamp :: rat

record 'g radar_image = radar_meta +
  image_grid :: 'g

record radar_point_cloud = radar_meta +
  point_cloud :: "(float64 \<times> float64 \<times> float64) list"

text \<open>
  \<^verbatim>\<open>draw_timestamp\<close> comes from \<^verbatim>\<open>radar_image_overlay\<close>, which is not part of the
  sources at hand. Its result is kept symbolic: \<open>Stamped f s\<close> stands for the value
  \<^verbatim>\<open>draw_timestamp(f, s)\<close> returns, \<open>Raster im\<close> for a frame nothing was drawn on.
\<close>

datatype raster_frame = Raster image | Stamped raster_frame string

section \<open>String formatting\<close>

definition digit_char :: "nat \<Rightarrow> char" where
  "digit_char n = ''0123456789'' ! (n mod 10)"

fun show_nat :: "nat \<Rightarrow> string" where
  "show_nat n = (if n < 10 then [digit_char n] else show_nat (n div 10) @ [digit_char (n mod 10)])"

declare show_nat.simps [simp del]

text \<open>\<^verbatim>\<open>"%d" % i\<close> and \<^verbatim>\<open>str(i)\<close> for a Python int.\<close>

definition show_int :: "int \<Rightarrow> string" where
  "show_int i = (if i < 0 then CHR ''-'' # show_nat (nat (- i)) else show_nat (nat i))"

text \<open>\<^verbatim>\<open>"%2.2f" % x\<close>: two digits after the point, those of the hundredth nearest
  to the exact value of \<open>x\<close>, ties to even; the minimum width of 2 never pads,
  the result having at least four characters.\<close>

definition format_2_2f :: "rat \<Rightarrow> string" where
  "format_2_2f x =
     (let n = nat (round_half_even (\<bar>x\<bar> * 100))
      in (if x < 0 then ''-'' else '''') @ show_nat (n div 100) @ ''.'' @
         [digit_char (n div 10), digit_char n])"

section \<open>Overlay stage\<close>

text \<open>
  \<^verbatim>\<open>imaging_viewer.overlay_metadata\<close>. The range-marker block of this function is
  inside its docstring, so the parameter \<^verbatim>\<open>show_range_marker\<close> (default
  \<^verbatim>\<open>False\<close>) is never read.
\<close>

definition overlay_metadata ::
  "'a radar_meta_scheme \<Rightarrow> raster_frame \<Rightarrow> bool \<Rightarrow> raster_frame" where
  "overlay_metadata raw_image im_rgb show_range_marker =
     (let timestamp_s = format_2_2f (timestamp raw_image);
          frame_id_s = show_int (frame_id raw_image)
      in Stamped im_rgb (frame_id_s @ '':'' @ timestamp_s))"

text \<open>
  \<^verbatim>\<open>point_cloud_viewer.overlay_metadata\<close>. That module imports neither
  \<^verbatim>\<open>draw_grid_line\<close> nor \<^verbatim>\<open>draw_timestamp\<close>, so both names are unbound where the
  function looks them up. The argument is taken to carry the attributes the
  range-marker block reads (\<^verbatim>\<open>extrinsic\<close>, \<^verbatim>\<open>image_model\<close>), which have no effect.
\<close>

definition overlay_metadata_pcv ::
  "'a radar_meta_scheme \<Rightarrow> raster_frame \<Rightarrow> bool \<Rightarrow> error + raster_frame" where
  "overlay_metadata_pcv radar_image im_rgb show_range_marker =
     (if show_range_marker then Inl (NameError ''draw_grid_line'')
      else Inl (NameError ''draw_timestamp''))"

section \<open>Point-cloud renderer (\<^verbatim>\<open>imaging_viewer.convert_point_cloud_stream\<close>)\<close>

text \<open>The default imaging area: four Python ints and the float \<^verbatim>\<open>0.1\<close>, which is
  the double \<open>3602879701896397 / 2 ^ 55\<close>.\<close>

definition xmin :: int where "xmin = 0"
definition xmax :: int where "xmax = 60"
definition ymin :: int where "ymin = - 30"
definition ymax :: int where "ymax = 30"
definition im_res :: float64 where "im_res = Finite (3602879701896397 / 36028797018963968)"

text \<open>\<^verbatim>\<open>int((ymax - ymin) / im_res)\<close>: an int divided by a float. For the constants
  above \<^verbatim>\<open>int\<close> does not raise, and both sizes are 600.\<close>

definition imsize_y :: nat where
  "imsize_y = (case py_int (fdiv (float_of_int (ymax - ymin)) im_res) of
                 Inr n \<Rightarrow> nat n | Inl e \<Rightarrow> 0)"

definition imsize_x :: nat where
  "imsize_x = (case py_int (fdiv (float_of_int (xmax - xmin)) im_res) of
                 Inr n \<Rightarrow> nat n | Inl e \<Rightarrow> 0)"

text \<open>\<^verbatim>\<open>np.zeros((h, w, 3), dtype=np.uint8)\<close>.\<close>

definition np_zeros :: "nat \<Rightarrow> nat \<Rightarrow> image" where
  "np_zeros h w = replicate h (replicate w (0, 0, 0))"

text \<open>
  \<^verbatim>\<open>cv2.circle\<close> is OpenCV's, not this repository's. It is modelled for the one way
  it is called (radius 1, thickness -1, that is filled, line type and shift left at
  their defaults). The centre is a pair of Python ints, (column, row); the call raises
  when one of them does not fit a C int. Otherwise OpenCV's circle rasteriser writes
  the colour at the centre and at its four direct neighbours, and skips every one of
  these positions that lies outside the image. \<open>put_pixel\<close> is one such clipped
  write, \<open>paint_circle\<close> the five of them.
\<close>

definition put_pixel :: "image \<Rightarrow> int \<Rightarrow> int \<Rightarrow> pixel \<Rightarrow> image" where
  "put_pixel img col row v =
     (if 0 \<le> row \<and> row < int (length img) \<and> 0 \<le> col \<and> col < int (length (img ! nat row))
      then img[nat row := (img ! nat row)[nat col := v]]
      else img)"

definition marker_pixels :: "int \<times> int \<Rightarrow> (int \<times> int) list" where
  "marker_pixels center =
     (let (cx, cy) = center
      in [(cx - 1, cy), (cx, cy), (cx + 1, cy), (cx, cy - 1), (cx, cy + 1)])"

definition paint_circle :: "image \<Rightarrow> int \<times> int \<Rightarrow> pixel \<Rightarrow> image" where
  "paint_circle img center color =
     fold (\<lambda>(c, r) im. put_pixel im c r color) (marker_pixels center) img"

definition fits_c_int :: "int \<Rightarrow> bool" where
  "fits_c_int i = (- (2 ^ 31) \<le> i \<and> i < 2 ^ 31)"

definition cv2_circle :: "image \<Rightarrow> int \<times> int \<Rightarrow> pixel \<Rightarrow> error + image" where
  "cv2_circle img center color =
     (if fits_c_int (fst center) \<and> fits_c_int (snd center)
      then Inr (paint_circle img center color)
      else Inl (Cv2_Error ''circle''))"

text \<open>Lines 163 to 165: the points as a \<^verbatim>\<open>float64\<close> array, its first two columns
  rescaled. numpy raises nothing here.\<close>

definition transform_points ::
  "(float64 \<times> float64 \<times> float64) list \<Rightarrow> (float64 \<times> float64 \<times> float64) list" where
  "transform_points pts =
     map (\<lambda>(x, y, v). (fdiv (fsub x (float_of_int xmin)) im_res,
                        fdiv (fsub y (float_of_int ymin)) im_res, v)) pts"

text \<open>The centre handed to \<^verbatim>\<open>cv2.circle\<close> for a row \<open>(x, y, _)\<close> of the array:
  \<^verbatim>\<open>(int(y), int(x))\<close>, \<^verbatim>\<open>int(y)\<close> being evaluated first.\<close>

definition marker_center :: "float64 \<times> float64 \<times> float64 \<Rightarrow> error + int \<times> int" where
  "marker_center row =
     (let (x, y, _) = row
      in case py_int y of
           Inl e \<Rightarrow> Inl e
         | Inr cx \<Rightarrow> (case py_int x of Inl e \<Rightarrow> Inl e | Inr cy \<Rightarrow> Inr (cx, cy)))"

text \<open>Lines 168 to 173: one marker per row, drawn in order on the same image; the
  first exception ends the loop.\<close>

fun draw_markers :: "(float64 \<times> float64 \<times> float64) list \<Rightarrow> image \<Rightarrow> error + image" where
  "draw_markers [] pc_image = Inr pc_image"
| "draw_markers (row # rest) pc_image =
     (case marker_center row of
        Inl e \<Rightarrow> Inl e
      | Inr center \<Rightarrow>
          (case cv2_circle pc_image center (255, 0, 0) of
             Inl e \<Rightarrow> Inl e
           | Inr im \<Rightarrow> draw_markers rest im))"

text \<open>Lines 163 to 173: the raster of one non-skipped record, or the exception raised
  while it is drawn.\<close>

definition rasterize_points :: "(float64 \<times> float64 \<times> float64) list \<Rightarrow> error + image" where
  "rasterize_points pts =
     draw_markers (transform_points pts) (np_zeros imsize_y imsize_x)"

text \<open>
  The generator's loop over the decoded records. A record with no point is skipped by
  \<^verbatim>\<open>continue\<close>, every other one yields the record and its raster. The result is the
  list of the pairs yielded and the exception that ends the generator, if one does:
  nothing is yielded for the record whose drawing raises, nor after it.
\<close>

fun point_cloud_frames ::
  "radar_point_cloud list \<Rightarrow> (radar_point_cloud \<times> image) list \<times> error option" where
  "point_cloud_frames [] = ([], None)"
| "point_cloud_frames (pc # rest) =
     (let pts = point_cloud pc
      in if length pts = 0 then point_cloud_frames rest
         else (case rasterize_points pts of
                 Inl e \<Rightarrow> ([], Some e)
               | Inr pc_image \<Rightarrow>
                   (case point_cloud_frames rest of
                      (frames, ending) \<Rightarrow> ((pc, pc_image) # frames, ending))))"

text \<open>For stating results: the image with a marker painted at each of the given
  centres, a pixel of an image, (column, row) as above, and whether a position lies in
  an image.\<close>

definition paint_markers :: "(int \<times> int) list \<Rightarrow> image \<Rightarrow> image" where
  "paint_markers centers img = fold (\<lambda>center im. paint_circle im center (255, 0, 0)) centers img"

definition pixel_at :: "image \<Rightarrow> int \<Rightarrow> int \<Rightarrow> pixel" where
  "pixel_at img col row = img ! nat row ! nat col"

definition in_image :: "image \<Rightarrow> int \<times> int \<Rightarrow> bool" where
  "in_image img p =
     (let (col, row) = p
      in 0 \<le> row \<and> row < int (length img) \<and> 0 \<le> col \<and> col < int (length (img ! nat row)))"


section \<open>Command line and paths\<close>

text \<open>The parsed arguments of \<^verbatim>\<open>imaging_viewer.py\<close>; \<open>point_cloud_flag\<close> is
  \<^verbatim>\<open>args.point_cloud\<close>. \<^verbatim>\<open>point_cloud_viewer.py\<close> has the same arguments but this
  flag.\<close>

record args =
  input_dir :: string
  output_dir :: "string option"
  radar_name :: "string list"
  frame_rate :: int
  quality_factor :: int
  point_cloud_flag :: bool

text \<open>\<^verbatim>\<open>os.path.join\<close> of two components, as \<^verbatim>\<open>posixpath\<close> defines it.\<close>

definition join :: "string \<Rightarrow> string \<Rightarrow> string" where
  "join a b =
     (if b \<noteq> [] \<and> hd b = CHR ''/'' then b
      else if a = [] \<or> last a = CHR ''/'' then a @ b
      else a @ ''/'' @ b)"

record IOPath =
  image_pbs_path :: "string option"
  pc_pbs_path :: "string option"
  output_path :: "string option"

text \<open>The body of the loop over \<^verbatim>\<open>args.radar_name\<close> in \<^verbatim>\<open>imaging_viewer.main\<close>:
  the output path is computed before the mode is looked at.\<close>

definition io_path_of :: "args \<Rightarrow> string \<Rightarrow> IOPath" where
  "io_path_of a rn =
     (let out = (case output_dir a of None \<Rightarrow> None | Some d \<Rightarrow> Some (join d (rn @ ''.mp4'')))
      in if point_cloud_flag a
         then \<lparr>image_pbs_path = None,
               pc_pbs_path = Some (join (input_dir a) (rn @ ''_points.pbs'')),
               output_path = out\<rparr>
         else \<lparr>image_pbs_path = Some (join (input_dir a) (rn @ ''_images.pbs'')),
               pc_pbs_path = None,
               output_path = out\<rparr>)"

fun build_io_paths :: "args \<Rightarrow> string list \<Rightarrow> IOPath list \<Rightarrow> IOPath list" where
  "build_io_paths a [] paths = paths"
| "build_io_paths a (rn # rest) paths =
     build_io_paths a rest (paths @ [io_path_of a rn])"

definition input_output_paths :: "args \<Rightarrow> IOPath list" where
  "input_output_paths a = build_io_paths a (radar_name a) []"

text \<open>The same loop in \<^verbatim>\<open>point_cloud_viewer.main\<close>, which appends pairs.\<close>

definition io_path_of_pcv :: "args \<Rightarrow> string \<Rightarrow> string \<times> string option" where
  "io_path_of_pcv a rn =
     (let pbs_path = join (input_dir a) (rn @ ''_points.pbs'');
          out = (case output_dir a of None \<Rightarrow> None
                 | Some d \<Rightarrow> Some (join d (rn @ ''_points.mp4'')))
      in (pbs_path, out))"

fun build_io_paths_pcv ::
  "args \<Rightarrow> string list \<Rightarrow> (string \<times> string option) list \<Rightarrow> (string \<times> string option) list" where
  "build_io_paths_pcv a [] paths = paths"
| "build_io_paths_pcv a (rn # rest) paths =
     build_io_paths_pcv a rest (paths @ [io_path_of_pcv a rn])"

definition input_output_paths_pcv :: "args \<Rightarrow> (string \<times> string option) list" where
  "input_output_paths_pcv a = build_io_paths_pcv a (radar_name a) []"

section \<open>Files and record streams\<close>

text \<open>
  A file of the input directory is given by what the reader decodes from it under each
  of the two schemas: \<open>image_records\<close> with \<^verbatim>\<open>data_pb2.Image\<close>, \<open>tracker_records\<close> with
  \<^verbatim>\<open>data_pb2.TrackerState\<close>. The file system maps the paths that exist to their file.
\<close>

record 'g pbs_file =
  image_records :: "'g radar_image list"
  tracker_records :: "radar_point_cloud list"

type_synonym 'g filesystem = "string \<rightharpoonup> 'g pbs_file"

definition exists :: "'g filesystem \<Rightarrow> string \<Rightarrow> bool" where
  "exists fs p = (fs p \<noteq> None)"

text \<open>
  Modelled from the spec: \<^verbatim>\<open>RadarDataStreamer\<close> (module \<^verbatim>\<open>radar_data_streamer\<close> is not
  among the sources). Section 4.1: the reader fails with \<open>NotFoundError\<close> if the path
  does not exist, and otherwise produces the finite sequence of decoded records.
  Framing and decoding failures in the middle of a file are left out.
\<close>

definition RadarDataStreamer :: "'g filesystem \<Rightarrow> string \<Rightarrow> error + 'g pbs_file" where
  "RadarDataStreamer fs p = (case fs p of None \<Rightarrow> Inl (NotFoundError p) | Some f \<Rightarrow> Inr f)"

text \<open>
  A generator is given by the list of what it yields and the exception that ends it,
  if one does. An exception raised when the reader is opened ends the generator before
  anything is yielded.

  \<^verbatim>\<open>imaging_viewer.convert_image_stream\<close>; \<open>radar_image_display\<close> is the
  \<^verbatim>\<open>RadarImageStreamDisplay\<close> instance, a parameter.
\<close>

definition convert_image_stream ::
  "('g \<Rightarrow> image) \<Rightarrow> 'g filesystem \<Rightarrow> string
     \<Rightarrow> ('g radar_image \<times> image) list \<times> error option" where
  "convert_image_stream radar_image_display fs pbs_path =
     (case RadarDataStreamer fs pbs_path of
        Inl e \<Rightarrow> ([], Some e)
      | Inr f \<Rightarrow> (map (\<lambda>ri. (ri, radar_image_display (image_grid ri))) (image_records f), None))"

text \<open>\<^verbatim>\<open>imaging_viewer.convert_point_cloud_stream\<close>.\<close>

definition convert_point_cloud_stream ::
  "'g filesystem \<Rightarrow> string \<Rightarrow> (radar_point_cloud \<times> image) list \<times> error option" where
  "convert_point_cloud_stream fs pbs_path =
     (case RadarDataStreamer fs pbs_path of
        Inl e \<Rightarrow> ([], Some e)
      | Inr f \<Rightarrow> point_cloud_frames (tracker_records f))"

section \<open>The session loop of \<^verbatim>\<open>imaging_viewer.main\<close>\<close>

text \<open>
  The calls a run makes on its collaborators, in order: the figure, the on-screen
  artist, the video writer, \<^verbatim>\<open>print\<close> and the scatter plot of
  \<^verbatim>\<open>point_cloud_viewer\<close>.
\<close>

datatype event =
    Fig_Show
  | Imshow_Zeros "nat \<times> nat"
  | VideoWriter_New "string option" nat nat int int
  | Video_Write raster_frame
  | Set_Data raster_frame
  | Print string
  | Scatter "float64 list" "float64 list"
  | Plt_Show

text \<open>The calls that construct or feed the encoder sink, and the calls on any sink of
  raster frames (the on-screen artist or the encoder).\<close>

fun encoder_event :: "event \<Rightarrow> bool" where
  "encoder_event (VideoWriter_New p w h fr qf) = True"
| "encoder_event (Video_Write f) = True"
| "encoder_event e = False"

fun sink_event :: "event \<Rightarrow> bool" where
  "sink_event (Imshow_Zeros sh) = True"
| "sink_event (Set_Data f) = True"
| "sink_event e = encoder_event e"

text \<open>\<open>artist\<close> and \<open>video_writer\<close> tell whether the variable of that name holds an
  object (\<open>True\<close>) or \<^verbatim>\<open>None\<close>.\<close>

record viewer_state =
  artist :: bool
  video_writer :: bool
  trace :: "event list"

definition im_shape :: "image \<Rightarrow> nat \<times> nat" where
  "im_shape im = (length im, case im of [] \<Rightarrow> 0 | row # _ \<Rightarrow> length row)"

text \<open>\<^verbatim>\<open>draw_timestamp\<close> is taken to return a frame of the shape it was given.\<close>

fun frame_shape :: "raster_frame \<Rightarrow> nat \<times> nat" where
  "frame_shape (Raster im) = im_shape im"
| "frame_shape (Stamped f s) = frame_shape f"

text \<open>
  The body of the loop over the stream (lines 97 to 121). The name \<^verbatim>\<open>stack\<close> is bound
  nowhere in \<^verbatim>\<open>imaging_viewer.py\<close>: the statement after the construction of the
  \<^verbatim>\<open>VideoWriter\<close> raises \<open>NameError\<close>.
\<close>

definition loop_body ::
  "args \<Rightarrow> IOPath \<Rightarrow> 'a radar_meta_scheme \<times> image \<Rightarrow> viewer_state \<Rightarrow> error option \<times> viewer_state" where
  "loop_body a io_path item st =
     (let (raw_data, im) = item;
          (im_height, im_width) = im_shape im;
          im_rgb = overlay_metadata raw_data (Raster im) False;
          st1 = (if \<not> artist st
                 then st\<lparr>artist := True, trace := trace st @ [Imshow_Zeros (frame_shape im_rgb)]\<rparr>
                 else st)
      in if output_dir a \<noteq> None \<and> \<not> video_writer st1
         then (Some (NameError ''stack''),
               st1\<lparr>video_writer := True,
                   trace := trace st1 @ [VideoWriter_New (output_path io_path) im_width im_height
                                           (frame_rate a) (quality_factor a)]\<rparr>)
         else (let st2 = (if video_writer st1
                          then st1\<lparr>trace := trace st1 @ [Video_Write im_rgb]\<rparr>
                          else st1)
               in (None, st2\<lparr>trace := trace st2 @ [Set_Data im_rgb]\<rparr>)))"

fun frame_loop ::
  "args \<Rightarrow> IOPath \<Rightarrow> ('a radar_meta_scheme \<times> image) list \<Rightarrow> viewer_state
     \<Rightarrow> error option \<times> viewer_state" where
  "frame_loop a io_path [] st = (None, st)"
| "frame_loop a io_path (item # rest) st =
     (case loop_body a io_path item st of
        (Some e, st') \<Rightarrow> (Some e, st')
      | (None, st') \<Rightarrow> frame_loop a io_path rest st')"

text \<open>The \<^verbatim>\<open>for\<close> statement over a generator: the body runs on every pair yielded,
  and the exception that ends the generator ends the loop.\<close>

definition consume_stream ::
  "args \<Rightarrow> IOPath \<Rightarrow> ('a radar_meta_scheme \<times> image) list \<times> error option \<Rightarrow> viewer_state
     \<Rightarrow> error option \<times> viewer_state" where
  "consume_stream a io_path data_streamer st =
     (case frame_loop a io_path (fst data_streamer) st of
        (Some e, st') \<Rightarrow> (Some e, st')
      | (None, st') \<Rightarrow> (snd data_streamer, st'))"

text \<open>One pass of the loop over \<^verbatim>\<open>input_output_paths\<close> (lines 81 to 121).
  \<^verbatim>\<open>sys.exit\<close> raises \<open>SystemExit\<close>; \<^verbatim>\<open>exists(None)\<close> raises \<open>TypeError\<close>.\<close>

definition run_session ::
  "('g \<Rightarrow> image) \<Rightarrow> args \<Rightarrow> 'g filesystem \<Rightarrow> IOPath \<Rightarrow> viewer_state
     \<Rightarrow> error option \<times> viewer_state" where
  "run_session radar_image_display a fs io_path st0 =
     (let st = st0\<lparr>video_writer := False\<rparr>
      in case image_pbs_path io_path of
           Some p \<Rightarrow>
             if \<not> exists fs p then (Some (SystemExit (p @ '' does not exist'')), st)
             else consume_stream a io_path (convert_image_stream radar_image_display fs p) st
         | None \<Rightarrow>
             (case pc_pbs_path io_path of
                None \<Rightarrow> (Some (TypeError ''exists''), st)
              | Some p \<Rightarrow>
                  if \<not> exists fs p then (Some (SystemExit (p @ '' does not exist'')), st)
                  else consume_stream a io_path (convert_point_cloud_stream fs p) st))"

fun sessions_loop ::
  "('g \<Rightarrow> image) \<Rightarrow> args \<Rightarrow> 'g filesystem \<Rightarrow> IOPath list \<Rightarrow> viewer_state
     \<Rightarrow> error option \<times> viewer_state" where
  "sessions_loop radar_image_display a fs [] st = (None, st)"
| "sessions_loop radar_image_display a fs (io_path # rest) st =
     (case run_session radar_image_display a fs io_path st of
        (Some e, st') \<Rightarrow> (Some e, st')
      | (None, st') \<Rightarrow> sessions_loop radar_image_display a fs rest st')"

text \<open>\<^verbatim>\<open>imaging_viewer.main\<close> after argument parsing: the result is the exception that
  ended the run, if any, and the final state with the trace of the calls made.\<close>

definition main ::
  "('g \<Rightarrow> image) \<Rightarrow> args \<Rightarrow> 'g filesystem \<Rightarrow> error option \<times> viewer_state" where
  "main radar_image_display a fs =
     sessions_loop radar_image_display a fs (input_output_paths a)
       \<lparr>artist = False, video_writer = False, trace = [Fig_Show]\<rparr>"

section \<open>\<^verbatim>\<open>point_cloud_viewer.py\<close>\<close>

text \<open>
  \<^verbatim>\<open>point_cloud_viewer.convert_point_cloud_stream\<close> has no \<^verbatim>\<open>yield\<close>: it is an
  ordinary function, and calling it runs its loop over the records to the end. Every
  record with points is shown as a scatter plot of its first two columns.
\<close>

fun scatter_loop_pcv :: "radar_point_cloud list \<Rightarrow> event list \<Rightarrow> event list" where
  "scatter_loop_pcv [] tr = tr"
| "scatter_loop_pcv (pc # rest) tr =
     (let pts = point_cloud pc
      in if length pts = 0 then scatter_loop_pcv rest tr
         else scatter_loop_pcv rest
                (tr @ [Scatter (map fst pts) (map (\<lambda>p. fst (snd p)) pts), Plt_Show]))"

definition convert_point_cloud_stream_pcv ::
  "'g filesystem \<Rightarrow> string \<Rightarrow> event list \<Rightarrow> error option \<times> event list" where
  "convert_point_cloud_stream_pcv fs pbs_path tr =
     (case RadarDataStreamer fs pbs_path of
        Inl e \<Rightarrow> (Some e, tr)
      | Inr f \<Rightarrow> (None, scatter_loop_pcv (tracker_records f) tr))"

text \<open>\<^verbatim>\<open>"%s" % output_path\<close>, the path being a string or \<^verbatim>\<open>None\<close>.\<close>

definition str_of_path :: "string option \<Rightarrow> string" where
  "str_of_path p = (case p of None \<Rightarrow> ''None'' | Some s \<Rightarrow> s)"

text \<open>The loop over \<^verbatim>\<open>input_output_paths\<close> (lines 57 to 61); what follows the call
  of \<^verbatim>\<open>convert_point_cloud_stream\<close> in the source is a string literal.\<close>

fun sessions_loop_pcv ::
  "'g filesystem \<Rightarrow> (string \<times> string option) list \<Rightarrow> viewer_state
     \<Rightarrow> error option \<times> viewer_state" where
  "sessions_loop_pcv fs [] st = (None, st)"
| "sessions_loop_pcv fs ((pbs_path, out) # rest) st =
     (let st1 = st\<lparr>video_writer := False,
                   trace := trace st @ [Print (''writing out video file to '' @ str_of_path out)]\<rparr>
      in case convert_point_cloud_stream_pcv fs pbs_path (trace st1) of
           (Some e, tr) \<Rightarrow> (Some e, st1\<lparr>trace := tr\<rparr>)
         | (None, tr) \<Rightarrow> sessions_loop_pcv fs rest (st1\<lparr>trace := tr\<rparr>))"

definition main_pcv :: "args \<Rightarrow> 'g filesystem \<Rightarrow> error option \<times> viewer_state" where
  "main_pcv a fs =
     sessions_loop_pcv fs (input_output_paths_pcv a)
       \<lparr>artist = False, video_writer = False, trace = [Fig_Show]\<rparr>"

section \<open>Properties of the point-cloud renderer\<close>

subsection \<open>Clipped pixel writes and markers\<close>

lemma length_put_pixel [simp]: "length (put_pixel img c r v) = length img"
  by (simp add: put_pixel_def)

lemma length_row_put_pixel [simp]: "length (put_pixel img c r v ! i) = length (img ! i)"
  by (cases "i = nat r") (auto simp: put_pixel_def)

lemma in_image_put_pixel [simp]: "in_image (put_pixel img c r v) p = in_image img p"
  by (cases p) (simp add: in_image_def)

lemma pixel_at_put_pixel:
  assumes "in_image img (c', r')"
  shows "pixel_at (put_pixel img c r v) c' r' =
     (if c = c' \<and> r = r' then v else pixel_at img c' r')"
  using assms by (auto simp: put_pixel_def pixel_at_def in_image_def nth_list_update)

lemma in_image_fold_put [simp]:
  "in_image (fold (\<lambda>(c, r) im. put_pixel im c r v) ps img) p = in_image img p"
  by (induction ps arbitrary: img) (simp_all add: case_prod_beta)

lemma pixel_at_fold_put:
  assumes "in_image img (c', r')"
  shows "pixel_at (fold (\<lambda>(c, r) im. put_pixel im c r v) ps img) c' r' =
           (if (c', r') \<in> set ps then v else pixel_at img c' r')"
  using assms
proof (induction ps arbitrary: img)
  case Nil
  then show ?case by simp
next
  case (Cons q ps)
  obtain c r where q: "q = (c, r)" by (cases q)
  have "in_image (put_pixel img c r v) (c', r')" using Cons.prems by simp
  from Cons.IH [OF this] show ?case
    using Cons.prems by (simp add: q pixel_at_put_pixel) blast
qed

lemma in_image_paint_circle [simp]: "in_image (paint_circle img ctr v) p = in_image img p"
  by (simp add: paint_circle_def)

lemma pixel_at_paint_circle:
  "in_image img (c, r) \<Longrightarrow>
   pixel_at (paint_circle img ctr v) c r =
     (if (c, r) \<in> set (marker_pixels ctr) then v else pixel_at img c r)"
  unfolding paint_circle_def by (rule pixel_at_fold_put)

lemma in_image_paint_markers [simp]: "in_image (paint_markers cs img) p = in_image img p"
  unfolding paint_markers_def by (induction cs arbitrary: img) simp_all

lemma pixel_at_paint_markers:
  assumes "in_image img (c, r)"
  shows "pixel_at (paint_markers cs img) c r =
           (if \<exists>ctr \<in> set cs. (c, r) \<in> set (marker_pixels ctr) then (255, 0, 0)
            else pixel_at img c r)"
  using assms unfolding paint_markers_def
proof (induction cs arbitrary: img)
  case Nil
  then show ?case by simp
next
  case (Cons q cs)
  have "in_image (paint_circle img q (255, 0, 0)) (c, r)" using Cons.prems by simp
  from Cons.IH [OF this] show ?case
    using Cons.prems by (simp add: pixel_at_paint_circle)
qed

lemma in_image_np_zeros:
  "in_image (np_zeros h w) (c, r) \<longleftrightarrow> 0 \<le> r \<and> r < int h \<and> 0 \<le> c \<and> c < int w"
  by (auto simp: in_image_def np_zeros_def)

lemma pixel_at_np_zeros:
  "in_image (np_zeros h w) (c, r) \<Longrightarrow> pixel_at (np_zeros h w) c r = (0, 0, 0)"
  by (auto simp: in_image_def np_zeros_def pixel_at_def)




lemma paint_markers_snoc:
  "paint_markers (cs @ [c]) img = paint_circle (paint_markers cs img) c (255, 0, 0)"
  by (simp add: paint_markers_def)

lemma paint_markers_Cons:
  "paint_markers (c # cs) img = paint_markers cs (paint_circle img c (255, 0, 0))"
  by (simp add: paint_markers_def)

lemma pixel_values_paint_markers:
  assumes "row \<in> set (paint_markers cs (np_zeros h w))" and "px \<in> set row"
  shows "px = (0, 0, 0) \<or> px = (255, 0, 0)"
proof -
  let ?img = "paint_markers cs (np_zeros h w)"
  from assms(1) obtain r where r: "r < length ?img" "row = ?img ! r"
    by (auto simp: in_set_conv_nth)
  from assms(2) obtain c where c: "c < length row" "px = row ! c"
    by (auto simp: in_set_conv_nth)
  have inside: "in_image ?img (int c, int r)"
    using r c by (simp add: in_image_def del: in_image_paint_markers)
  then have z: "in_image (np_zeros h w) (int c, int r)" by simp
  have "px = pixel_at ?img (int c) (int r)"
    using r c by (simp add: pixel_at_def)
  also have "\<dots> = (if \<exists>ctr \<in> set cs. (int c, int r) \<in> set (marker_pixels ctr) then (255, 0, 0)
                    else pixel_at (np_zeros h w) (int c) (int r))"
    by (rule pixel_at_paint_markers [OF z])
  finally show ?thesis using pixel_at_np_zeros [OF z] by (auto split: if_splits)
qed

lemma marker_pixel_red:
  assumes "ctr \<in> set cs" and "p \<in> set (marker_pixels ctr)"
    and "in_image (paint_markers cs (np_zeros h w)) p"
  shows "pixel_at (paint_markers cs (np_zeros h w)) (fst p) (snd p) = (255, 0, 0)"
proof -
  obtain c r where p: "p = (c, r)" by (cases p)
  have z: "in_image (np_zeros h w) (c, r)" using assms(3) by (simp add: p)
  show ?thesis
    using assms(1,2) by (simp add: p pixel_at_paint_markers [OF z]) blast
qed

subsection \<open>The loop that draws the markers\<close>

lemma draw_markers_step:
  "draw_markers (row # rows) img =
     (case marker_center row of
        Inl e \<Rightarrow> Inl e
      | Inr c \<Rightarrow>
          if fits_c_int (fst c) \<and> fits_c_int (snd c)
          then draw_markers rows (paint_circle img c (255, 0, 0))
          else Inl (Cv2_Error ''circle''))"
  by (simp add: cv2_circle_def split: sum.splits)

declare draw_markers.simps(2) [simp del]

lemma draw_markers_centers:
  assumes "map marker_center rows = map Inr cs"
    and "list_all (\<lambda>c. fits_c_int (fst c) \<and> fits_c_int (snd c)) cs"
  shows "draw_markers rows img = Inr (paint_markers cs img)"
  using assms
proof (induction rows arbitrary: img cs)
  case Nil
  then show ?case by (simp add: paint_markers_def)
next
  case (Cons row rows)
  from Cons.prems(1) obtain c cs' where cs: "cs = c # cs'"
    and c: "marker_center row = Inr c" and rest: "map marker_center rows = map Inr cs'"
    by (cases cs) auto
  from Cons.prems(2) cs have fit: "fits_c_int (fst c) \<and> fits_c_int (snd c)"
    and fits: "list_all (\<lambda>c. fits_c_int (fst c) \<and> fits_c_int (snd c)) cs'"
    by simp_all
  have "draw_markers (row # rows) img = draw_markers rows (paint_circle img c (255, 0, 0))"
    using fit by (simp add: draw_markers_step c)
  also have "\<dots> = Inr (paint_markers cs' (paint_circle img c (255, 0, 0)))"
    by (rule Cons.IH [OF rest fits])
  finally show ?case by (simp only: cs paint_markers_Cons)
qed

lemma draw_markers_Inr_D:
  assumes "draw_markers rows img = Inr img'"
  shows "\<exists>cs. map marker_center rows = map Inr cs
          \<and> list_all (\<lambda>c. fits_c_int (fst c) \<and> fits_c_int (snd c)) cs
          \<and> img' = paint_markers cs img"
  using assms
proof (induction rows arbitrary: img)
  case Nil
  then show ?case by (simp add: paint_markers_def)
next
  case (Cons row rows)
  from Cons.prems obtain c where c: "marker_center row = Inr c"
    by (cases "marker_center row") (simp_all add: draw_markers_step)
  from Cons.prems c have fit: "fits_c_int (fst c) \<and> fits_c_int (snd c)"
    by (simp add: draw_markers_step split: if_splits)
  from Cons.prems c fit
  have "draw_markers rows (paint_circle img c (255, 0, 0)) = Inr img'"
    by (simp add: draw_markers_step)
  from Cons.IH [OF this] obtain cs where cs: "map marker_center rows = map Inr cs"
    "list_all (\<lambda>c. fits_c_int (fst c) \<and> fits_c_int (snd c)) cs"
    "img' = paint_markers cs (paint_circle img c (255, 0, 0))"
    by blast
  show ?case
  proof (intro exI conjI)
    show "map marker_center (row # rows) = map Inr (c # cs)" using c cs(1) by simp
    show "list_all (\<lambda>c. fits_c_int (fst c) \<and> fits_c_int (snd c)) (c # cs)"
      using fit cs(2) by simp
    show "img' = paint_markers (c # cs) img" using cs(3) by (simp only: paint_markers_Cons)
  qed
qed


lemma in_image_draw_markers:
  assumes "draw_markers rows img = Inr img'"
  shows "in_image img' p = in_image img p"
proof -
  from draw_markers_Inr_D [OF assms] obtain cs where "img' = paint_markers cs img" by blast
  then show ?thesis by simp
qed

subsection \<open>The raster and the window constants\<close>

lemma float_xmin: "float_of_int xmin = Finite 0"
  by (simp add: float_of_int_def xmin_def round_double_def)

lemma float_ymin: "float_of_int ymin = Finite (- 30)"
  by code_simp

lemma imsize_y_600: "imsize_y = 600"
  by code_simp

lemma imsize_x_600: "imsize_x = 600"
  by code_simp

lemma transform_points_map:
  "transform_points pts =
     map (\<lambda>(x, y, v). (fdiv (fsub x (Finite 0)) im_res, fdiv (fsub y (Finite (- 30))) im_res, v)) pts"
  by (simp add: transform_points_def float_xmin float_ymin)

lemma marker_center_Inr:
  "marker_center (x, y, v) = Inr (cx, cy) \<longleftrightarrow> py_int y = Inr cx \<and> py_int x = Inr cy"
  by (auto simp: marker_center_def split: sum.splits)

lemma rasterize_points_centers:
  assumes "map marker_center (transform_points pts) = map Inr cs"
    and "list_all (\<lambda>c. fits_c_int (fst c) \<and> fits_c_int (snd c)) cs"
  shows "rasterize_points pts = Inr (paint_markers cs (np_zeros imsize_y imsize_x))"
  unfolding rasterize_points_def using assms by (rule draw_markers_centers)

lemma rasterize_points_Inr_D:
  assumes "rasterize_points pts = Inr img"
  shows "\<exists>cs. map marker_center (transform_points pts) = map Inr cs
          \<and> list_all (\<lambda>c. fits_c_int (fst c) \<and> fits_c_int (snd c)) cs
          \<and> img = paint_markers cs (np_zeros imsize_y imsize_x)"
  using assms unfolding rasterize_points_def by (rule draw_markers_Inr_D)

lemma in_image_raster:
  "in_image (paint_markers cs (np_zeros imsize_y imsize_x)) (c, r) \<longleftrightarrow>
     0 \<le> r \<and> r < 600 \<and> 0 \<le> c \<and> c < 600"
  by (simp add: in_image_np_zeros imsize_x_600 imsize_y_600)

lemma pixel_at_raster:
  assumes "0 \<le> r" "r < 600" "0 \<le> c" "c < 600"
  shows "pixel_at (paint_markers cs (np_zeros imsize_y imsize_x)) c r =
           (if \<exists>ctr \<in> set cs. (c, r) \<in> set (marker_pixels ctr) then (255, 0, 0) else (0, 0, 0))"
proof -
  have z: "in_image (np_zeros imsize_y imsize_x) (c, r)"
    using assms by (simp add: in_image_np_zeros imsize_x_600 imsize_y_600)
  show ?thesis
    by (simp only: pixel_at_paint_markers [OF z] pixel_at_np_zeros [OF z])
qed


text \<open>The centres of some points, computed in double arithmetic: 30 m ahead on the
  axis; 6.25 cm behind the sensor; 61 m and 300000 km ahead; and the point
  (1.0, -13.6), whose column is 163, the quotient being 163.99999999999997.\<close>

lemma centers_30_0:
  "map marker_center (transform_points [(Finite 30, Finite 0, Finite 1)]) = [Inr (300, 300)]"
  by code_simp




lemma centers_1_m13_6:
  "map marker_center (transform_points
      [(Finite 1, Finite (- (7656119366529843 / 562949953421312)), Finite 7)]) = [Inr (163, 10)]"
  by code_simp

lemma centers_origin:
  "map marker_center (transform_points [(float_of_int xmin, float_of_int ymin, v)]) = [Inr (0, 0)]"
  by (simp add: transform_points_map float_xmin float_ymin marker_center_def round_double_def
      im_res_def)


subsection \<open>The coordinate transform\<close>

lemma origin_pixel_red:
  assumes "(float_of_int xmin, float_of_int ymin, v) \<in> set pts"
    and "rasterize_points pts = Inr img"
  shows "pixel_at img 0 0 = (255, 0, 0)"
proof -
  from rasterize_points_Inr_D [OF assms(2)] obtain cs
    where cs: "map marker_center (transform_points pts) = map Inr cs"
      and img: "img = paint_markers cs (np_zeros imsize_y imsize_x)"
    by blast
  have "marker_center (fdiv (fsub (float_of_int xmin) (float_of_int xmin)) im_res,
      fdiv (fsub (float_of_int ymin) (float_of_int ymin)) im_res, v) = Inr (0, 0)"
    using centers_origin [of v] by (simp add: transform_points_def)
  with assms(1) have "Inr (0, 0) \<in> set (map marker_center (transform_points pts))"
    by (force simp: transform_points_def)
  then have "(0, 0) \<in> set cs" unfolding cs by auto
  moreover have "(0, 0) \<in> set (marker_pixels (0, 0))" by (simp add: marker_pixels_def)
  ultimately show ?thesis
    unfolding img by (subst pixel_at_raster) auto
qed

lemma rasterize_points_formula:
  assumes "rasterize_points pts = Inr img"
  shows "\<exists>cs. map (\<lambda>(x, y, v). (py_int (fdiv (fsub y (float_of_int ymin)) im_res),
                               py_int (fdiv (fsub x (float_of_int xmin)) im_res))) pts =
               map (\<lambda>(cx, cy). (Inr cx, Inr cy)) cs
            \<and> img = paint_markers cs (np_zeros imsize_y imsize_x)"
proof -
  from rasterize_points_Inr_D [OF assms] obtain cs
    where cs: "map marker_center (transform_points pts) = map Inr cs"
      and img: "img = paint_markers cs (np_zeros imsize_y imsize_x)"
    by blast
  have "map (\<lambda>(x, y, v). (py_int (fdiv (fsub y (float_of_int ymin)) im_res),
                          py_int (fdiv (fsub x (float_of_int xmin)) im_res))) pts =
        map (\<lambda>(cx, cy). (Inr cx, Inr cy)) cs"
    using cs
  proof (induction pts arbitrary: cs)
    case Nil
    then show ?case by (simp add: transform_points_def)
  next
    case (Cons p pts)
    obtain x y v where p: "p = (x, y, v)" by (cases p)
    from Cons.prems obtain c cs' where c: "cs = c # cs'"
      and hd: "marker_center (fdiv (fsub x (float_of_int xmin)) im_res,
                 fdiv (fsub y (float_of_int ymin)) im_res, v) = Inr c"
      and tl: "map marker_center (transform_points pts) = map Inr cs'"
      by (cases cs) (auto simp: transform_points_def p)
    obtain cx cy where cxy: "c = (cx, cy)" by (cases c)
    from hd have "py_int (fdiv (fsub y (float_of_int ymin)) im_res) = Inr cx"
      and "py_int (fdiv (fsub x (float_of_int xmin)) im_res) = Inr cy"
      by (simp_all add: cxy marker_center_Inr)
    then show ?case using Cons.IH [OF tl] by (simp add: p c cxy)
  qed
  with img show ?thesis by blast
qed

text \<open>
  Claim C1. The renderer computes, in double arithmetic, column
  \<open>(y - ymin) / im_res\<close> and row \<open>(x - xmin) / im_res\<close> for every point (x, y, v) of a
  frame, and centres the marker of the point at the pixel \<open>(int(column), int(row))\<close>,
  a pixel index being an integer: whenever a raster is produced, it is the blank image
  with one marker painted at each of these centres. The point (\<open>xmin\<close>, \<open>ymin\<close>) has
  its centre at pixel (0, 0), and pixel (0, 0) of the raster of any frame that holds
  this point has the marker colour.
\<close>

theorem point_cloud_pixel_transform:
  "(marker_center (fdiv (fsub x (float_of_int xmin)) im_res,
                   fdiv (fsub y (float_of_int ymin)) im_res, v) = Inr (cx, cy) \<longleftrightarrow>
      py_int (fdiv (fsub y (float_of_int ymin)) im_res) = Inr cx \<and>
      py_int (fdiv (fsub x (float_of_int xmin)) im_res) = Inr cy)
   \<and> (rasterize_points pts = Inr img \<longrightarrow>
        (\<exists>cs. map (\<lambda>(x, y, v). (py_int (fdiv (fsub y (float_of_int ymin)) im_res),
                                 py_int (fdiv (fsub x (float_of_int xmin)) im_res))) pts =
                 map (\<lambda>(cx, cy). (Inr cx, Inr cy)) cs
              \<and> img = paint_markers cs (np_zeros imsize_y imsize_x)))
   \<and> map marker_center (transform_points [(float_of_int xmin, float_of_int ymin, v)]) =
       [Inr (0, 0)]
   \<and> ((float_of_int xmin, float_of_int ymin, v) \<in> set pts \<and> rasterize_points pts = Inr img \<longrightarrow>
        pixel_at img 0 0 = (255, 0, 0))"
proof (intro conjI impI)
  show "marker_center (fdiv (fsub x (float_of_int xmin)) im_res,
                   fdiv (fsub y (float_of_int ymin)) im_res, v) = Inr (cx, cy) \<longleftrightarrow>
      py_int (fdiv (fsub y (float_of_int ymin)) im_res) = Inr cx \<and>
      py_int (fdiv (fsub x (float_of_int xmin)) im_res) = Inr cy"
    by (rule marker_center_Inr)
  show "map marker_center (transform_points [(float_of_int xmin, float_of_int ymin, v)]) =
       [Inr (0, 0)]"
    by (rule centers_origin)
next
  assume "rasterize_points pts = Inr img"
  then show "\<exists>cs. map (\<lambda>(x, y, v). (py_int (fdiv (fsub y (float_of_int ymin)) im_res),
                                 py_int (fdiv (fsub x (float_of_int xmin)) im_res))) pts =
                 map (\<lambda>(cx, cy). (Inr cx, Inr cy)) cs
              \<and> img = paint_markers cs (np_zeros imsize_y imsize_x)"
    by (rule rasterize_points_formula)
next
  assume "(float_of_int xmin, float_of_int ymin, v) \<in> set pts \<and> rasterize_points pts = Inr img"
  then show "pixel_at img 0 0 = (255, 0, 0)"
    using origin_pixel_red by blast
qed

lemma raster_of_witness_frame:
  "rasterize_points [(Finite 1, Finite (- (7656119366529843 / 562949953421312)), Finite 7),
                     (Finite 0, Finite (- 30), Finite 1)] =
     Inr (paint_markers [(163, 10), (0, 0)] (np_zeros imsize_y imsize_x))"
proof (rule rasterize_points_centers)
  show "map marker_center (transform_points
      [(Finite 1, Finite (- (7656119366529843 / 562949953421312)), Finite 7),
       (Finite 0, Finite (- 30), Finite 1)]) = map Inr [(163, 10), (0, 0)]"
    using centers_1_m13_6 centers_origin [of "Finite 1"]
    by (simp add: transform_points_def float_xmin float_ymin)
  show "list_all (\<lambda>c. fits_c_int (fst c) \<and> fits_c_int (snd c)) [(163, 10), (0, 0)]"
    by (simp add: fits_c_int_def)
qed

theorem point_cloud_pixel_transform_witness:
  "py_int (fdiv (fsub (Finite (- (7656119366529843 / 562949953421312))) (float_of_int ymin)) im_res)
     = Inr 163
   \<and> py_int (fdiv (fsub (Finite 1) (float_of_int xmin)) im_res) = Inr 10
   \<and> pixel_at (paint_markers [(163, 10), (0, 0)] (np_zeros imsize_y imsize_x)) 0 0 = (255, 0, 0)"
proof -
  note t = point_cloud_pixel_transform [where x = "Finite 1"
      and y = "Finite (- (7656119366529843 / 562949953421312))" and v = "Finite 1"
      and cx = 163 and cy = 10
      and pts = "[(Finite 1, Finite (- (7656119366529843 / 562949953421312)), Finite 7),
                  (Finite 0, Finite (- 30), Finite 1)]"
      and img = "paint_markers [(163, 10), (0, 0)] (np_zeros imsize_y imsize_x)"]
  have c: "marker_center (fdiv (fsub (Finite 1) (float_of_int xmin)) im_res,
      fdiv (fsub (Finite (- (7656119366529843 / 562949953421312))) (float_of_int ymin)) im_res,
      Finite 1) = Inr (163, 10)"
    using centers_1_m13_6 by (simp add: transform_points_def marker_center_def)
  have a: "py_int (fdiv (fsub (Finite (- (7656119366529843 / 562949953421312)))
        (float_of_int ymin)) im_res) = Inr 163
      \<and> py_int (fdiv (fsub (Finite 1) (float_of_int xmin)) im_res) = Inr 10"
    using t [THEN conjunct1] c by blast
  have b: "pixel_at (paint_markers [(163, 10), (0, 0)] (np_zeros imsize_y imsize_x)) 0 0 =
      (255, 0, 0)"
    using t [THEN conjunct2, THEN conjunct2, THEN conjunct2] raster_of_witness_frame
    by (simp add: float_xmin float_ymin)
  from a b show ?thesis by simp
qed

subsection \<open>Points outside the imaging window\<close>

lemma raster_30_0:
  "rasterize_points [(Finite 30, Finite 0, Finite 1)] =
     Inr (paint_markers [(300, 300)] (np_zeros imsize_y imsize_x))"
proof (rule rasterize_points_centers)
  show "map marker_center (transform_points [(Finite 30, Finite 0, Finite 1)]) =
      map Inr [(300, 300)]"
    using centers_30_0 by simp
  show "list_all (\<lambda>c. fits_c_int (fst c) \<and> fits_c_int (snd c)) [(300, 300)]"
    by (simp add: fits_c_int_def)
qed













subsection \<open>Pixel values of a raster\<close>

lemma point_cloud_frames_mem:
  "(pc, img) \<in> set (fst (point_cloud_frames pcs)) \<Longrightarrow>
     pc \<in> set pcs \<and> point_cloud pc \<noteq> [] \<and> rasterize_points (point_cloud pc) = Inr img"
  by (induction pcs) (auto simp: Let_def split: if_splits sum.splits prod.splits)

text \<open>
  Claim C9. Every raster the point-cloud generator yields (one per record with a
  non-empty point list, before the overlay) holds only the background value (0,0,0)
  and the marker colour (255,0,0), and every pixel of the raster that belongs to the
  marker of one of the frame's points has exactly the value (255,0,0).
\<close>

theorem raster_marker_colors:
  assumes "(pc, img) \<in> set (fst (point_cloud_frames pcs))"
  shows "(\<forall>row \<in> set img. \<forall>px \<in> set row. px = (0, 0, 0) \<or> px = (255, 0, 0))
       \<and> (\<forall>row \<in> set (transform_points (point_cloud pc)). \<forall>ctr. marker_center row = Inr ctr \<longrightarrow>
            (\<forall>p \<in> set (marker_pixels ctr).
               in_image img p \<longrightarrow> pixel_at img (fst p) (snd p) = (255, 0, 0)))"
proof -
  have "rasterize_points (point_cloud pc) = Inr img"
    using point_cloud_frames_mem [OF assms] by simp
  from rasterize_points_Inr_D [OF this] obtain cs
    where cs: "map marker_center (transform_points (point_cloud pc)) = map Inr cs"
      and img: "img = paint_markers cs (np_zeros imsize_y imsize_x)"
    by blast
  show ?thesis
    unfolding img
  proof (intro conjI ballI allI impI)
    fix row px
    assume "row \<in> set (paint_markers cs (np_zeros imsize_y imsize_x))" and "px \<in> set row"
    then show "px = (0, 0, 0) \<or> px = (255, 0, 0)"
      by (rule pixel_values_paint_markers)
  next
    fix row ctr p
    assume row: "row \<in> set (transform_points (point_cloud pc))"
      and ctr: "marker_center row = Inr ctr"
      and p: "p \<in> set (marker_pixels ctr)"
      and inside: "in_image (paint_markers cs (np_zeros imsize_y imsize_x)) p"
    from row ctr have "Inr ctr \<in> set (map marker_center (transform_points (point_cloud pc)))"
      by force
    then have "ctr \<in> set cs" unfolding cs by auto
    then show "pixel_at (paint_markers cs (np_zeros imsize_y imsize_x)) (fst p) (snd p) =
        (255, 0, 0)"
      using p inside by (rule marker_pixel_red)
  qed
qed

theorem raster_marker_colors_witness:
  "pixel_at (paint_markers [(300, 300)] (np_zeros imsize_y imsize_x)) 300 300 = (255, 0, 0)
   \<and> pixel_at (paint_markers [(300, 300)] (np_zeros imsize_y imsize_x)) 301 300 = (255, 0, 0)
   \<and> (paint_markers [(300, 300)] (np_zeros imsize_y imsize_x) ! 0 ! 0 = (0, 0, 0)
        \<or> paint_markers [(300, 300)] (np_zeros imsize_y imsize_x) ! 0 ! 0 = (255, 0, 0))"
proof -
  let ?pc = "\<lparr>frame_id = 7, timestamp = 1, point_cloud = [(Finite 30, Finite 0, Finite 1)]\<rparr>"
  let ?img = "paint_markers [(300, 300)] (np_zeros imsize_y imsize_x)"
  have mem: "(?pc, ?img) \<in> set (fst (point_cloud_frames [?pc]))"
    by (simp add: Let_def raster_30_0)
  note t = raster_marker_colors [OF mem]
  have row: "(Finite 300, Finite 300, Finite 1) \<in> set (transform_points (point_cloud ?pc))"
    and ctr: "marker_center (Finite 300, Finite 300, Finite 1) = Inr (300, 300)"
    by code_simp+
  have inside: "in_image ?img (c, r) \<longleftrightarrow> 0 \<le> r \<and> r < 600 \<and> 0 \<le> c \<and> c < 600" for c r
    by (rule in_image_raster)
  have a: "pixel_at ?img 300 300 = (255, 0, 0)"
    using t [THEN conjunct2, rule_format, OF row ctr, of "(300, 300)"]
    by (simp add: marker_pixels_def in_image_np_zeros imsize_x_600 imsize_y_600)
  have b: "pixel_at ?img 301 300 = (255, 0, 0)"
    using t [THEN conjunct2, rule_format, OF row ctr, of "(301, 300)"]
    by (simp add: marker_pixels_def in_image_np_zeros imsize_x_600 imsize_y_600)
  have "in_image ?img (0, 0)" by (simp only: inside) simp
  then have "?img ! 0 \<in> set ?img" and "?img ! 0 ! 0 \<in> set (?img ! 0)"
    by (simp_all add: in_image_def del: in_image_paint_markers)
  then have c: "?img ! 0 ! 0 = (0, 0, 0) \<or> ?img ! 0 ! 0 = (255, 0, 0)"
    using t [THEN conjunct1] by blast
  from a b c show ?thesis by simp
qed


section \<open>Properties of the overlay stage\<close>

lemma overlay_metadata_label:
  "overlay_metadata raw im flag =
     Stamped im (show_int (frame_id raw) @ '':'' @ format_2_2f (timestamp raw))"
  by (simp add: overlay_metadata_def)

lemma label_example:
  "show_int 42 @ '':'' @ format_2_2f (314159 / 100000) = ''42:3.14''"
  by code_simp

lemma loop_body_display_only:
  assumes "output_dir a = None" and "\<not> video_writer st"
  shows "loop_body a io (raw, im) st =
     (None, st\<lparr>artist := True,
               trace := trace st @ (if artist st then [] else [Imshow_Zeros (im_shape im)]) @
                 [Set_Data (Stamped (Raster im)
                    (show_int (frame_id raw) @ '':'' @ format_2_2f (timestamp raw)))]\<rparr>)"
  using assms by (simp add: loop_body_def overlay_metadata_label case_prod_beta)

lemma round_half_even_bound: "\<bar>of_int (round_half_even x) - x\<bar> \<le> 1 / 2"
proof -
  have "of_int \<lfloor>x\<rfloor> \<le> x" and "x < of_int \<lfloor>x\<rfloor> + 1" by linarith+
  then show ?thesis
    by (auto simp: round_half_even_def Let_def)
qed

lemma round_half_even_nonneg: "0 \<le> x \<Longrightarrow> 0 \<le> round_half_even x"
  by (auto simp: round_half_even_def Let_def intro: add_nonneg_nonneg)

lemma format_2_2f_rounds:
  "\<exists>n. format_2_2f t = (if t < 0 then ''-'' else []) @ show_nat (n div 100) @ ''.'' @
           [digit_char (n div 10), digit_char n]
       \<and> \<bar>of_nat n / 100 - \<bar>t\<bar>\<bar> \<le> 1 / 200"
proof -
  let ?k = "round_half_even (\<bar>t\<bar> * 100)"
  have nn: "0 \<le> ?k" by (rule round_half_even_nonneg) simp
  have "\<bar>of_int ?k - \<bar>t\<bar> * 100\<bar> \<le> 1 / 2" by (rule round_half_even_bound)
  then have "\<bar>of_nat (nat ?k) / 100 - \<bar>t\<bar>\<bar> \<le> 1 / 200"
    using nn by (simp add: abs_le_iff field_simps)
  then show ?thesis
    by (intro exI [of _ "nat ?k"]) (simp add: format_2_2f_def Let_def)
qed

text \<open>
  Claim C4. For every decoded frame the overlay stage of \<^verbatim>\<open>imaging_viewer\<close> returns
  the frame stamped with exactly the label \<open>frame_id\<close>, a colon, and the timestamp with
  two digits after the point; frame id 42 with timestamp 3.14159 gives \<open>42:3.14\<close>.
  The two digits are those of the hundredth nearest to the timestamp. In a display-only
  run this stamped frame is what the loop hands to the screen.
\<close>

theorem overlay_label:
  "overlay_metadata raw im flag =
     Stamped im (show_int (frame_id raw) @ '':'' @ format_2_2f (timestamp raw))
   \<and> overlay_metadata \<lparr>frame_id = 42, timestamp = 314159 / 100000\<rparr> im flag =
       Stamped im ''42:3.14''
   \<and> (\<exists>n. format_2_2f t = (if t < 0 then ''-'' else []) @ show_nat (n div 100) @ ''.'' @
             [digit_char (n div 10), digit_char n]
         \<and> \<bar>of_nat n / 100 - \<bar>t\<bar>\<bar> \<le> 1 / 200)
   \<and> (output_dir a = None \<and> \<not> video_writer st \<longrightarrow>
        trace (snd (loop_body a io (raw, img) st)) =
          trace st @ (if artist st then [] else [Imshow_Zeros (im_shape img)]) @
            [Set_Data (Stamped (Raster img)
               (show_int (frame_id raw) @ '':'' @ format_2_2f (timestamp raw)))])"
proof (intro conjI impI)
  show "overlay_metadata raw im flag =
     Stamped im (show_int (frame_id raw) @ '':'' @ format_2_2f (timestamp raw))"
    by (rule overlay_metadata_label)
  show "overlay_metadata \<lparr>frame_id = 42, timestamp = 314159 / 100000\<rparr> im flag =
       Stamped im ''42:3.14''"
    using label_example by (simp only: overlay_metadata_label radar_meta.simps)
  show "\<exists>n. format_2_2f t = (if t < 0 then ''-'' else []) @ show_nat (n div 100) @ ''.'' @
             [digit_char (n div 10), digit_char n]
         \<and> \<bar>of_nat n / 100 - \<bar>t\<bar>\<bar> \<le> 1 / 200"
    by (rule format_2_2f_rounds)
  assume "output_dir a = None \<and> \<not> video_writer st"
  then show "trace (snd (loop_body a io (raw, img) st)) =
          trace st @ (if artist st then [] else [Imshow_Zeros (im_shape img)]) @
            [Set_Data (Stamped (Raster img)
               (show_int (frame_id raw) @ '':'' @ format_2_2f (timestamp raw)))]"
    by (simp add: loop_body_display_only)
qed

theorem overlay_label_witness:
  "trace (snd (loop_body
      \<lparr>input_dir = ''in'', output_dir = None, radar_name = [''r1''], frame_rate = 10,
       quality_factor = 23, point_cloud_flag = True\<rparr>
      \<lparr>image_pbs_path = None, pc_pbs_path = Some ''in/r1_points.pbs'', output_path = None\<rparr>
      (\<lparr>frame_id = 42, timestamp = 314159 / 100000\<rparr>, np_zeros 2 3)
      \<lparr>artist = False, video_writer = False, trace = [Fig_Show]\<rparr>)) =
   [Fig_Show, Imshow_Zeros (im_shape (np_zeros 2 3)),
    Set_Data (Stamped (Raster (np_zeros 2 3)) ''42:3.14'')]"
  using overlay_label [where a = "\<lparr>input_dir = ''in'', output_dir = None, radar_name = [''r1''],
        frame_rate = 10, quality_factor = 23, point_cloud_flag = True\<rparr>"
      and st = "\<lparr>artist = False, video_writer = False, trace = [Fig_Show]\<rparr>"
      and raw = "\<lparr>frame_id = 42, timestamp = 314159 / 100000\<rparr>"
      and img = "np_zeros 2 3"
      and io = "\<lparr>image_pbs_path = None, pc_pbs_path = Some ''in/r1_points.pbs'',
        output_path = None\<rparr>",
      THEN conjunct2, THEN conjunct2, THEN conjunct2]
    label_example
  by simp

text \<open>
  Claim C8 as stated fails. In \<^verbatim>\<open>imaging_viewer.overlay_metadata\<close> the range-marker
  block is part of the docstring: with \<^verbatim>\<open>show_range_marker=True\<close> the result is the
  frame with the label alone, the same as with \<^verbatim>\<open>False\<close>. The copy in
  \<^verbatim>\<open>point_cloud_viewer\<close> does not draw either: it stops at an unbound name.
\<close>

theorem range_marker_enabled_draws_nothing:
  "overlay_metadata \<lparr>frame_id = 42, timestamp = 314159 / 100000\<rparr> (Raster (np_zeros 2 3)) True =
     Stamped (Raster (np_zeros 2 3)) ''42:3.14''
   \<and> overlay_metadata \<lparr>frame_id = 42, timestamp = 314159 / 100000\<rparr> (Raster (np_zeros 2 3)) True =
     overlay_metadata \<lparr>frame_id = 42, timestamp = 314159 / 100000\<rparr> (Raster (np_zeros 2 3)) False
   \<and> overlay_metadata_pcv \<lparr>frame_id = 42, timestamp = 314159 / 100000\<rparr>
       (Raster (np_zeros 2 3)) True = Inl (NameError ''draw_grid_line'')"
  using label_example
  by (simp add: overlay_metadata_label overlay_metadata_pcv_def)

text \<open>
  Claim C8, amended. \<^verbatim>\<open>imaging_viewer.overlay_metadata\<close> stamps the label and nothing
  else whatever the value of \<^verbatim>\<open>show_range_marker\<close>: enabled, its result is the one of
  the default (disabled), which is the given frame with the label stamped on it.
\<close>

theorem range_marker_flag_ignored:
  "overlay_metadata raw im flag = overlay_metadata raw im False
   \<and> overlay_metadata raw im False =
       Stamped im (show_int (frame_id raw) @ '':'' @ format_2_2f (timestamp raw))"
  by (simp add: overlay_metadata_def)

section \<open>Output and input paths\<close>

lemma build_io_paths_map: "build_io_paths a rns acc = acc @ map (io_path_of a) rns"
  by (induction rns arbitrary: acc) simp_all

lemma build_io_paths_pcv_map: "build_io_paths_pcv a rns acc = acc @ map (io_path_of_pcv a) rns"
  by (induction rns arbitrary: acc) simp_all

lemma input_output_paths_map: "input_output_paths a = map (io_path_of a) (radar_name a)"
  by (simp add: input_output_paths_def build_io_paths_map)

lemma input_output_paths_pcv_map:
  "input_output_paths_pcv a = map (io_path_of_pcv a) (radar_name a)"
  by (simp add: input_output_paths_pcv_def build_io_paths_pcv_map)

lemma output_path_io_path_of:
  "output_path (io_path_of a rn) =
     (case output_dir a of None \<Rightarrow> None | Some d \<Rightarrow> Some (join d (rn @ ''.mp4'')))"
  by (simp add: io_path_of_def Let_def)

lemma join_plain:
  "rn \<noteq> [] \<Longrightarrow> hd rn \<noteq> CHR ''/'' \<Longrightarrow> d \<noteq> [] \<Longrightarrow> last d \<noteq> CHR ''/'' \<Longrightarrow>
     join d (rn @ ext) = d @ ''/'' @ rn @ ext"
  by (simp add: join_def)

text \<open>
  Claim C7 as stated fails for the point-cloud mode of \<^verbatim>\<open>imaging_viewer\<close>: with
  \<^verbatim>\<open>--point-cloud\<close>, output directory \<open>out\<close> and radar name \<open>r1\<close> the output
  path is \<open>out/r1.mp4\<close>, not \<open>out/r1_points.mp4\<close>.
\<close>

theorem point_cloud_mode_output_name:
  "map output_path (input_output_paths
      \<lparr>input_dir = ''in'', output_dir = Some ''out'', radar_name = [''r1''], frame_rate = 10,
       quality_factor = 23, point_cloud_flag = True\<rparr>) = [Some ''out/r1.mp4'']
   \<and> map pc_pbs_path (input_output_paths
      \<lparr>input_dir = ''in'', output_dir = Some ''out'', radar_name = [''r1''], frame_rate = 10,
       quality_factor = 23, point_cloud_flag = True\<rparr>) = [Some ''in/r1_points.pbs'']
   \<and> ''out/r1.mp4'' \<noteq> ''out/r1_points.mp4''"
  by (simp add: input_output_paths_map io_path_of_def join_def Let_def)

text \<open>
  Claim C7, amended. With an output directory given, \<^verbatim>\<open>imaging_viewer\<close> names the
  output of every requested radar name \<open>join(output_dir, radar_name + ".mp4")\<close> in
  image mode and in point-cloud mode alike; the separate tool \<^verbatim>\<open>point_cloud_viewer\<close>
  names it \<open>join(output_dir, radar_name + "_points.mp4")\<close>. Without an output directory
  there is no output path. For a radar name that does not start with a slash and a
  directory that is not empty and does not end with one, the joined path is the
  directory, a slash and the file name.
\<close>

theorem output_video_names:
  "map output_path (input_output_paths a) =
     map (\<lambda>rn. case output_dir a of None \<Rightarrow> None | Some d \<Rightarrow> Some (join d (rn @ ''.mp4'')))
       (radar_name a)
   \<and> map snd (input_output_paths_pcv a) =
     map (\<lambda>rn. case output_dir a of None \<Rightarrow> None
               | Some d \<Rightarrow> Some (join d (rn @ ''_points.mp4''))) (radar_name a)
   \<and> (rn \<noteq> [] \<and> hd rn \<noteq> CHR ''/'' \<and> d \<noteq> [] \<and> last d \<noteq> CHR ''/'' \<longrightarrow>
        join d (rn @ ext) = d @ ''/'' @ rn @ ext)"
proof (intro conjI impI)
  show "map output_path (input_output_paths a) =
     map (\<lambda>rn. case output_dir a of None \<Rightarrow> None | Some d \<Rightarrow> Some (join d (rn @ ''.mp4'')))
       (radar_name a)"
    by (simp add: input_output_paths_map output_path_io_path_of comp_def)
  show "map snd (input_output_paths_pcv a) =
     map (\<lambda>rn. case output_dir a of None \<Rightarrow> None
               | Some d \<Rightarrow> Some (join d (rn @ ''_points.mp4''))) (radar_name a)"
    by (simp add: input_output_paths_pcv_map io_path_of_pcv_def comp_def Let_def)
  assume "rn \<noteq> [] \<and> hd rn \<noteq> CHR ''/'' \<and> d \<noteq> [] \<and> last d \<noteq> CHR ''/''"
  then show "join d (rn @ ext) = d @ ''/'' @ rn @ ext"
    by (simp add: join_plain)
qed

theorem output_video_names_witness:
  "map output_path (input_output_paths
      \<lparr>input_dir = ''in'', output_dir = Some ''out'', radar_name = [''r1'', ''r2''],
       frame_rate = 10, quality_factor = 23, point_cloud_flag = False\<rparr>) =
     [Some ''out/r1.mp4'', Some ''out/r2.mp4'']
   \<and> map snd (input_output_paths_pcv
      \<lparr>input_dir = ''in'', output_dir = Some ''out'', radar_name = [''r1'', ''r2''],
       frame_rate = 10, quality_factor = 23, point_cloud_flag = False\<rparr>) =
     [Some ''out/r1_points.mp4'', Some ''out/r2_points.mp4'']
   \<and> join ''out'' (''r1'' @ ''.mp4'') = ''out/r1.mp4''"
  using output_video_names [where a = "\<lparr>input_dir = ''in'', output_dir = Some ''out'',
        radar_name = [''r1'', ''r2''], frame_rate = 10, quality_factor = 23,
        point_cloud_flag = False\<rparr>"
      and rn = "''r1''" and d = "''out''" and ext = "''.mp4''"]
  by (simp add: join_def)

section \<open>Properties of the session loop\<close>

subsection \<open>Records without points\<close>

lemma point_cloud_frames_skip:
  "point_cloud pc = [] \<Longrightarrow>
     point_cloud_frames (pre @ pc # post) = point_cloud_frames (pre @ post)"
  by (induction pre) (simp_all add: Let_def split: sum.splits)

lemma point_cloud_frames_nonempty:
  "(pc, img) \<in> set (fst (point_cloud_frames pcs)) \<Longrightarrow> point_cloud pc \<noteq> []"
  by (induction pcs) (auto simp: Let_def split: if_splits sum.splits prod.splits)

lemma run_session_same_streams:
  assumes "\<And>q. exists fs1 q = exists fs2 q"
    and "\<And>q. convert_image_stream d fs1 q = convert_image_stream d fs2 q"
    and "\<And>q. convert_point_cloud_stream fs1 q = convert_point_cloud_stream fs2 q"
  shows "run_session d a fs1 io st = run_session d a fs2 io st"
proof -
  have e: "exists fs1 = exists fs2"
    "convert_image_stream d fs1 = convert_image_stream d fs2"
    "convert_point_cloud_stream fs1 = convert_point_cloud_stream fs2"
    using assms by (simp_all add: fun_eq_iff)
  show ?thesis unfolding run_session_def e by (rule refl)
qed

lemma sessions_loop_same_streams:
  assumes "\<And>q. exists fs1 q = exists fs2 q"
    and "\<And>q. convert_image_stream d fs1 q = convert_image_stream d fs2 q"
    and "\<And>q. convert_point_cloud_stream fs1 q = convert_point_cloud_stream fs2 q"
  shows "sessions_loop d a fs1 ios st = sessions_loop d a fs2 ios st"
proof (induction ios arbitrary: st)
  case Nil
  show ?case by simp
next
  case (Cons io ios)
  have "run_session d a fs1 io st = run_session d a fs2 io st"
    using assms by (rule run_session_same_streams)
  with Cons.IH show ?case by (simp split: prod.splits option.splits)
qed

lemma main_skips_empty_record:
  assumes "point_cloud pc = []"
  shows "main d a (fs(p \<mapsto> f\<lparr>tracker_records := pre @ pc # post\<rparr>)) =
         main d a (fs(p \<mapsto> f\<lparr>tracker_records := pre @ post\<rparr>))"
  unfolding main_def
proof (rule sessions_loop_same_streams)
  fix q
  show "exists (fs(p \<mapsto> f\<lparr>tracker_records := pre @ pc # post\<rparr>)) q =
        exists (fs(p \<mapsto> f\<lparr>tracker_records := pre @ post\<rparr>)) q"
    by (simp add: exists_def)
  show "convert_image_stream d (fs(p \<mapsto> f\<lparr>tracker_records := pre @ pc # post\<rparr>)) q =
        convert_image_stream d (fs(p \<mapsto> f\<lparr>tracker_records := pre @ post\<rparr>)) q"
    by (simp add: convert_image_stream_def RadarDataStreamer_def)
  show "convert_point_cloud_stream (fs(p \<mapsto> f\<lparr>tracker_records := pre @ pc # post\<rparr>)) q =
        convert_point_cloud_stream (fs(p \<mapsto> f\<lparr>tracker_records := pre @ post\<rparr>)) q"
    using assms
    by (simp add: convert_point_cloud_stream_def RadarDataStreamer_def point_cloud_frames_skip)
qed

text \<open>
  Claim C3. A record whose decoded point list is empty is skipped: the generator yields
  nothing for it (it appears in no yielded frame, and the frames yielded are those of
  the stream without it), and the whole run of \<^verbatim>\<open>imaging_viewer.main\<close>, that is every
  call made on the screen and on the encoder, is the run on the same file with that
  record taken out.
\<close>

theorem empty_point_cloud_skipped:
  assumes "point_cloud pc = []"
  shows "point_cloud_frames (pre @ pc # post) = point_cloud_frames (pre @ post)
       \<and> pc \<notin> fst ` set (fst (point_cloud_frames pcs))
       \<and> point_cloud_frames [pc] = ([], None)
       \<and> main d a (fs(p \<mapsto> f\<lparr>tracker_records := pre @ pc # post\<rparr>)) =
           main d a (fs(p \<mapsto> f\<lparr>tracker_records := pre @ post\<rparr>))"
proof (intro conjI)
  show "point_cloud_frames (pre @ pc # post) = point_cloud_frames (pre @ post)"
    using assms by (rule point_cloud_frames_skip)
  show "pc \<notin> fst ` set (fst (point_cloud_frames pcs))"
    using assms point_cloud_frames_nonempty by fastforce
  show "point_cloud_frames [pc] = ([], None)"
    using assms by simp
  show "main d a (fs(p \<mapsto> f\<lparr>tracker_records := pre @ pc # post\<rparr>)) =
        main d a (fs(p \<mapsto> f\<lparr>tracker_records := pre @ post\<rparr>))"
    using assms by (rule main_skips_empty_record)
qed

theorem empty_point_cloud_skipped_witness:
  "point_cloud_frames
     ([\<lparr>frame_id = 1, timestamp = 0, point_cloud = [(Finite 30, Finite 0, Finite 1)]\<rparr>] @
      \<lparr>frame_id = 2, timestamp = 1, point_cloud = []\<rparr> #
      [\<lparr>frame_id = 3, timestamp = 2, point_cloud = [(Finite 1, Finite 1, Finite 1)]\<rparr>]) =
   point_cloud_frames
     ([\<lparr>frame_id = 1, timestamp = 0, point_cloud = [(Finite 30, Finite 0, Finite 1)]\<rparr>] @
      [\<lparr>frame_id = 3, timestamp = 2, point_cloud = [(Finite 1, Finite 1, Finite 1)]\<rparr>])
   \<and> point_cloud_frames [\<lparr>frame_id = 2, timestamp = 1, point_cloud = []\<rparr>] = ([], None)"
proof -
  have h: "point_cloud \<lparr>frame_id = 2, timestamp = 1, point_cloud = []\<rparr> = []" by simp
  note t = empty_point_cloud_skipped [OF h,
      where pre = "[\<lparr>frame_id = 1, timestamp = 0, point_cloud = [(Finite 30, Finite 0, Finite 1)]\<rparr>]"
        and post = "[\<lparr>frame_id = 3, timestamp = 2, point_cloud = [(Finite 1, Finite 1, Finite 1)]\<rparr>]"]
  from t [THEN conjunct1] t [THEN conjunct2, THEN conjunct2, THEN conjunct1]
  show ?thesis by (rule conjI)
qed

subsection \<open>Construction of the video writer\<close>

lemma im_shape_np_zeros: "im_shape (np_zeros h w) = (h, if h = 0 then 0 else w)"
  by (cases h) (simp_all add: im_shape_def np_zeros_def)

lemma loop_body_with_output:
  assumes "output_dir a = Some d" and "\<not> video_writer st"
  shows "fst (loop_body a io (raw, im) st) = Some (NameError ''stack'')"
    and "trace (snd (loop_body a io (raw, im) st)) =
      trace st @ (if artist st then [] else [Imshow_Zeros (im_shape im)]) @
        [VideoWriter_New (output_path io) (snd (im_shape im)) (fst (im_shape im))
           (frame_rate a) (quality_factor a)]"
  using assms by (simp_all add: loop_body_def overlay_metadata_label case_prod_beta Let_def)

lemma frame_loop_no_output:
  assumes "output_dir a = None" and "\<not> video_writer st"
  shows "fst (frame_loop a io frames st) = None
       \<and> \<not> video_writer (snd (frame_loop a io frames st))
       \<and> filter encoder_event (trace (snd (frame_loop a io frames st))) =
           filter encoder_event (trace st)"
  using assms(2)
proof (induction frames arbitrary: st)
  case Nil
  then show ?case by simp
next
  case (Cons item frames)
  obtain raw im where item: "item = (raw, im)" by (cases item)
  obtain st' where step: "loop_body a io (raw, im) st = (None, st')"
    and vw: "\<not> video_writer st'"
    and tr: "filter encoder_event (trace st') = filter encoder_event (trace st)"
    using assms(1) Cons.prems by (simp add: loop_body_display_only)
  show ?case using Cons.IH [OF vw] by (simp add: item step tr)
qed

lemma snd_consume_stream:
  "snd (consume_stream a io s st) = snd (frame_loop a io (fst s) st)"
  by (simp add: consume_stream_def split: prod.splits option.splits)

lemma consume_stream_no_error:
  "consume_stream a io (frames, None) st = frame_loop a io frames st"
  by (simp add: consume_stream_def split: prod.splits option.splits)

lemma run_session_point_cloud:
  assumes "image_pbs_path io = None" and "pc_pbs_path io = Some p" and "fs p = Some f"
  shows "run_session disp a fs io st =
     consume_stream a io (point_cloud_frames (tracker_records f)) (st\<lparr>video_writer := False\<rparr>)"
  using assms
  by (simp add: run_session_def exists_def convert_point_cloud_stream_def RadarDataStreamer_def)

lemma run_session_image:
  assumes "image_pbs_path io = Some p" and "fs p = Some f"
  shows "run_session disp a fs io st =
     frame_loop a io (map (\<lambda>ri. (ri, disp (image_grid ri))) (image_records f))
       (st\<lparr>video_writer := False\<rparr>)"
  using assms
  by (simp add: run_session_def exists_def convert_image_stream_def RadarDataStreamer_def
      consume_stream_no_error)

text \<open>
  Claim C5. A session, in either mode, makes the calls of the loop over the frames its
  stream yields, started with no video writer (\<^verbatim>\<open>video_writer = None\<close>). Without
  an output directory the loop over the stream makes no call on an encoder at all.
  With one, nothing is constructed for a stream that yields no frame, and on the first
  yielded frame the \<^verbatim>\<open>VideoWriter\<close> is constructed, once, from the output path and
  that frame's width and height, before which the session has made no encoder call.
  (The statement that follows the construction then raises \<open>NameError\<close>, the name
  \<^verbatim>\<open>stack\<close> being unbound, which ends the run.)
\<close>

theorem video_writer_constructed_on_first_frame:
  "(output_dir a = None \<longrightarrow>
      filter encoder_event (trace (snd (frame_loop a io frames (st\<lparr>video_writer := False\<rparr>)))) =
      filter encoder_event (trace st))
   \<and> (frames = [] \<longrightarrow>
      frame_loop a io frames (st\<lparr>video_writer := False\<rparr>) = (None, st\<lparr>video_writer := False\<rparr>))
   \<and> (output_dir a = Some d \<and> frames = (raw, im) # rest \<longrightarrow>
      fst (frame_loop a io frames (st\<lparr>video_writer := False\<rparr>)) = Some (NameError ''stack'')
      \<and> trace (snd (frame_loop a io frames (st\<lparr>video_writer := False\<rparr>))) =
          trace st @ (if artist st then [] else [Imshow_Zeros (im_shape im)]) @
            [VideoWriter_New (output_path io) (snd (im_shape im)) (fst (im_shape im))
               (frame_rate a) (quality_factor a)])
   \<and> (image_pbs_path io = None \<and> pc_pbs_path io = Some p \<and> fs p = Some f \<longrightarrow>
      run_session disp a fs io st =
        consume_stream a io (point_cloud_frames (tracker_records f)) (st\<lparr>video_writer := False\<rparr>)
      \<and> snd (run_session disp a fs io st) =
        snd (frame_loop a io (fst (point_cloud_frames (tracker_records f)))
          (st\<lparr>video_writer := False\<rparr>)))
   \<and> (image_pbs_path io = Some p \<and> fs p = Some f \<longrightarrow>
      run_session disp a fs io st =
        frame_loop a io (map (\<lambda>ri. (ri, disp (image_grid ri))) (image_records f))
          (st\<lparr>video_writer := False\<rparr>))"
proof (intro conjI impI)
  assume h: "image_pbs_path io = None \<and> pc_pbs_path io = Some p \<and> fs p = Some f"
  then show "run_session disp a fs io st =
      consume_stream a io (point_cloud_frames (tracker_records f)) (st\<lparr>video_writer := False\<rparr>)"
    by (simp add: run_session_point_cloud)
  from h show "snd (run_session disp a fs io st) =
      snd (frame_loop a io (fst (point_cloud_frames (tracker_records f)))
        (st\<lparr>video_writer := False\<rparr>))"
    by (simp add: run_session_point_cloud snd_consume_stream)
next
  assume "image_pbs_path io = Some p \<and> fs p = Some f"
  then show "run_session disp a fs io st =
      frame_loop a io (map (\<lambda>ri. (ri, disp (image_grid ri))) (image_records f))
        (st\<lparr>video_writer := False\<rparr>)"
    by (simp add: run_session_image)
next
  assume "output_dir a = None"
  then show "filter encoder_event
       (trace (snd (frame_loop a io frames (st\<lparr>video_writer := False\<rparr>)))) =
      filter encoder_event (trace st)"
    using frame_loop_no_output [of a "st\<lparr>video_writer := False\<rparr>" io frames] by simp
next
  assume "frames = []"
  then show "frame_loop a io frames (st\<lparr>video_writer := False\<rparr>) =
      (None, st\<lparr>video_writer := False\<rparr>)"
    by simp
next
  assume h: "output_dir a = Some d \<and> frames = (raw, im) # rest"
  have vw: "\<not> video_writer (st\<lparr>video_writer := False\<rparr>)" by simp
  note lb = loop_body_with_output [OF conjunct1 [OF h] vw, of io raw im]
  have fl: "frame_loop a io frames (st\<lparr>video_writer := False\<rparr>) =
      loop_body a io (raw, im) (st\<lparr>video_writer := False\<rparr>)"
    using h lb(1) by (cases "loop_body a io (raw, im) (st\<lparr>video_writer := False\<rparr>)") auto
  show "fst (frame_loop a io frames (st\<lparr>video_writer := False\<rparr>)) = Some (NameError ''stack'')"
    using lb(1) by (simp only: fl)
  show "trace (snd (frame_loop a io frames (st\<lparr>video_writer := False\<rparr>))) =
          trace st @ (if artist st then [] else [Imshow_Zeros (im_shape im)]) @
            [VideoWriter_New (output_path io) (snd (im_shape im)) (fst (im_shape im))
               (frame_rate a) (quality_factor a)]"
    using lb(2) by (simp add: fl)
qed

theorem video_writer_constructed_on_first_frame_witness:
  "trace (snd (frame_loop
      \<lparr>input_dir = ''in'', output_dir = Some ''out'', radar_name = [''r1''], frame_rate = 10,
       quality_factor = 23, point_cloud_flag = True\<rparr>
      \<lparr>image_pbs_path = None, pc_pbs_path = Some ''in/r1_points.pbs'',
       output_path = Some ''out/r1.mp4''\<rparr>
      [(\<lparr>frame_id = 1, timestamp = 0\<rparr>, np_zeros 2 3), (\<lparr>frame_id = 2, timestamp = 1\<rparr>, np_zeros 2 3)]
      \<lparr>artist = False, video_writer = False, trace = [Fig_Show]\<rparr>)) =
   [Fig_Show, Imshow_Zeros (2, 3), VideoWriter_New (Some ''out/r1.mp4'') 3 2 10 23]"
  using video_writer_constructed_on_first_frame [where
      a = "\<lparr>input_dir = ''in'', output_dir = Some ''out'', radar_name = [''r1''],
        frame_rate = 10, quality_factor = 23, point_cloud_flag = True\<rparr>"
      and io = "\<lparr>image_pbs_path = None, pc_pbs_path = Some ''in/r1_points.pbs'',
        output_path = Some ''out/r1.mp4''\<rparr>"
      and frames = "[(\<lparr>frame_id = 1, timestamp = 0\<rparr>, np_zeros 2 3),
        (\<lparr>frame_id = 2, timestamp = 1\<rparr>, np_zeros 2 3)]"
      and st = "\<lparr>artist = False, video_writer = False, trace = [Fig_Show]\<rparr>"
      and d = "''out''" and raw = "\<lparr>frame_id = 1, timestamp = 0\<rparr>" and im = "np_zeros 2 3"
      and rest = "[(\<lparr>frame_id = 2, timestamp = 1\<rparr>, np_zeros 2 3)]",
      THEN conjunct2, THEN conjunct2, THEN conjunct1]
  by (simp add: im_shape_np_zeros)

subsection \<open>A missing input file\<close>

lemma length_fold_put [simp]:
  "length (fold (\<lambda>(c, r) im. put_pixel im c r v) ps img) = length img"
  by (induction ps arbitrary: img) (simp_all add: case_prod_beta)

lemma length_row_fold_put [simp]:
  "length (fold (\<lambda>(c, r) im. put_pixel im c r v) ps img ! i) = length (img ! i)"
  by (induction ps arbitrary: img) (simp_all add: case_prod_beta)

lemma length_paint_markers [simp]: "length (paint_markers cs img) = length img"
  unfolding paint_markers_def paint_circle_def by (induction cs arbitrary: img) simp_all

lemma length_row_paint_markers [simp]:
  "length (paint_markers cs img ! i) = length (img ! i)"
  unfolding paint_markers_def paint_circle_def by (induction cs arbitrary: img) simp_all

lemma im_shape_nth: "img \<noteq> [] \<Longrightarrow> im_shape img = (length img, length (img ! 0))"
  by (cases img) (simp_all add: im_shape_def)

lemma im_shape_raster: "im_shape (paint_markers cs (np_zeros 600 600)) = (600, 600)"
proof -
  have len: "length (paint_markers cs (np_zeros 600 600)) = 600"
    by (simp add: np_zeros_def)
  have "0 < length (paint_markers cs (np_zeros 600 600))"
    by (simp add: np_zeros_def)
  then have "paint_markers cs (np_zeros 600 600) \<noteq> []"
    unfolding length_greater_0_conv .
  moreover have "length (paint_markers cs (np_zeros 600 600) ! 0) = 600"
    by (simp add: np_zeros_def)
  ultimately show ?thesis using len by (simp add: im_shape_nth)
qed

lemma loop_body_radar_name [simp]:
  "loop_body (a\<lparr>radar_name := x\<rparr>) io item st = loop_body a io item st"
  by (simp add: loop_body_def case_prod_beta Let_def)

lemma frame_loop_radar_name [simp]:
  "frame_loop (a\<lparr>radar_name := x\<rparr>) io frames st = frame_loop a io frames st"
  by (induction frames arbitrary: st) (simp_all split: prod.splits option.splits)

lemma consume_stream_radar_name [simp]:
  "consume_stream (a\<lparr>radar_name := x\<rparr>) io s st = consume_stream a io s st"
  by (simp add: consume_stream_def)

lemma run_session_radar_name [simp]:
  "run_session d (a\<lparr>radar_name := x\<rparr>) fs io st = run_session d a fs io st"
  by (simp add: run_session_def Let_def split: option.splits sum.splits)

lemma sessions_loop_radar_name [simp]:
  "sessions_loop d (a\<lparr>radar_name := x\<rparr>) fs ios st = sessions_loop d a fs ios st"
  by (induction ios arbitrary: st) (simp_all split: prod.splits option.splits)

lemma io_path_of_radar_name [simp]: "io_path_of (a\<lparr>radar_name := x\<rparr>) = io_path_of a"
  by (simp add: fun_eq_iff io_path_of_def Let_def)

lemma sessions_loop_append:
  "sessions_loop d a fs (xs @ ys) st =
     (case sessions_loop d a fs xs st of
        (Some e, st') \<Rightarrow> (Some e, st')
      | (None, st') \<Rightarrow> sessions_loop d a fs ys st')"
  by (induction xs arbitrary: st) (simp_all split: prod.splits option.splits)

lemma run_session_missing:
  assumes "\<not> exists fs (join (input_dir a)
      (r @ (if point_cloud_flag a then ''_points.pbs'' else ''_images.pbs'')))"
  shows "run_session d a fs (io_path_of a r) st =
     (Some (SystemExit (join (input_dir a)
        (r @ (if point_cloud_flag a then ''_points.pbs'' else ''_images.pbs''))
        @ '' does not exist'')), st\<lparr>video_writer := False\<rparr>)"
  using assms
  by (cases "point_cloud_flag a") (simp_all add: run_session_def io_path_of_def Let_def)

lemma main_missing_input:
  assumes "\<not> exists fs (join (input_dir a)
      (r @ (if point_cloud_flag a then ''_points.pbs'' else ''_images.pbs'')))"
  shows "main d (a\<lparr>radar_name := pre @ r # post\<rparr>) fs =
     (case main d (a\<lparr>radar_name := pre\<rparr>) fs of
        (Some e, st) \<Rightarrow> (Some e, st)
      | (None, st) \<Rightarrow>
          (Some (SystemExit (join (input_dir a)
             (r @ (if point_cloud_flag a then ''_points.pbs'' else ''_images.pbs''))
             @ '' does not exist'')), st\<lparr>video_writer := False\<rparr>))"
  by (simp add: main_def input_output_paths_map sessions_loop_append
      run_session_missing [OF assms] split: prod.splits option.splits)

lemma label_example_b: "show_int 7 @ '':'' @ format_2_2f (3 / 2) = ''7:1.50''"
  by code_simp

lemma run_b_alone:
  "main id
     \<lparr>input_dir = ''in'', output_dir = None, radar_name = [''b''], frame_rate = 10,
      quality_factor = 23, point_cloud_flag = True\<rparr>
     [''in/b_points.pbs'' \<mapsto> \<lparr>image_records = [], tracker_records =
        [\<lparr>frame_id = 7, timestamp = 3 / 2, point_cloud = [(Finite 30, Finite 0, Finite 1)]\<rparr>]\<rparr>] =
   (None, \<lparr>artist = True, video_writer = False,
      trace = [Fig_Show, Imshow_Zeros (600, 600),
        Set_Data (Stamped (Raster (paint_markers [(300, 300)] (np_zeros 600 600))) ''7:1.50'')]\<rparr>)"
  using label_example_b
  by (simp add: main_def input_output_paths_map io_path_of_def join_def run_session_def
      exists_def convert_point_cloud_stream_def RadarDataStreamer_def Let_def
      consume_stream_def raster_30_0 imsize_x_600 imsize_y_600
      loop_body_display_only im_shape_raster)

text \<open>
  Claim C6 as stated fails. \<^verbatim>\<open>imaging_viewer.main\<close> answers a missing input file with
  \<^verbatim>\<open>sys.exit\<close>, which ends the whole run. With the radar names \<open>a\<close> and \<open>b\<close>
  requested, the file of \<open>a\<close> missing and the file of \<open>b\<close> holding one frame, the run
  ends with \<open>SystemExit\<close> before anything of \<open>b\<close> is shown, although \<open>b\<close> requested
  alone shows its frame.
\<close>

theorem missing_input_aborts_batch:
  "main id
     \<lparr>input_dir = ''in'', output_dir = None, radar_name = [''a'', ''b''], frame_rate = 10,
      quality_factor = 23, point_cloud_flag = True\<rparr>
     [''in/b_points.pbs'' \<mapsto> \<lparr>image_records = [], tracker_records =
        [\<lparr>frame_id = 7, timestamp = 3 / 2, point_cloud = [(Finite 30, Finite 0, Finite 1)]\<rparr>]\<rparr>] =
   (Some (SystemExit ''in/a_points.pbs does not exist''),
    \<lparr>artist = False, video_writer = False, trace = [Fig_Show]\<rparr>)
   \<and> main id
     \<lparr>input_dir = ''in'', output_dir = None, radar_name = [''b''], frame_rate = 10,
      quality_factor = 23, point_cloud_flag = True\<rparr>
     [''in/b_points.pbs'' \<mapsto> \<lparr>image_records = [], tracker_records =
        [\<lparr>frame_id = 7, timestamp = 3 / 2, point_cloud = [(Finite 30, Finite 0, Finite 1)]\<rparr>]\<rparr>] =
   (None, \<lparr>artist = True, video_writer = False,
      trace = [Fig_Show, Imshow_Zeros (600, 600),
        Set_Data (Stamped (Raster (paint_markers [(300, 300)] (np_zeros 600 600))) ''7:1.50'')]\<rparr>)"
proof (rule conjI)
  show "main id
     \<lparr>input_dir = ''in'', output_dir = None, radar_name = [''a'', ''b''], frame_rate = 10,
      quality_factor = 23, point_cloud_flag = True\<rparr>
     [''in/b_points.pbs'' \<mapsto> \<lparr>image_records = [], tracker_records =
        [\<lparr>frame_id = 7, timestamp = 3 / 2, point_cloud = [(Finite 30, Finite 0, Finite 1)]\<rparr>]\<rparr>] =
   (Some (SystemExit ''in/a_points.pbs does not exist''),
    \<lparr>artist = False, video_writer = False, trace = [Fig_Show]\<rparr>)"
    by (simp add: main_def input_output_paths_map io_path_of_def join_def run_session_def
        exists_def Let_def)
qed (rule run_b_alone)

text \<open>
  Claim C6, amended. When the input file of a requested radar name does not exist,
  \<^verbatim>\<open>imaging_viewer.main\<close> ends the whole run there with \<open>SystemExit\<close> and the message
  \<open><path> does not exist\<close>: the names requested before it have been processed as if
  they had been requested alone (and an error among them ends the run earlier), and
  no name requested after it is processed.
\<close>

theorem missing_input_ends_run:
  assumes "\<not> exists fs (join (input_dir a)
      (r @ (if point_cloud_flag a then ''_points.pbs'' else ''_images.pbs'')))"
  shows "main d (a\<lparr>radar_name := pre @ r # post\<rparr>) fs =
     (case main d (a\<lparr>radar_name := pre\<rparr>) fs of
        (Some e, st) \<Rightarrow> (Some e, st)
      | (None, st) \<Rightarrow>
          (Some (SystemExit (join (input_dir a)
             (r @ (if point_cloud_flag a then ''_points.pbs'' else ''_images.pbs''))
             @ '' does not exist'')), st\<lparr>video_writer := False\<rparr>))"
  using assms by (rule main_missing_input)

theorem missing_input_ends_run_witness:
  "main id
     \<lparr>input_dir = ''in'', output_dir = None, radar_name = [''b'', ''a'', ''c''], frame_rate = 10,
      quality_factor = 23, point_cloud_flag = True\<rparr>
     [''in/b_points.pbs'' \<mapsto> \<lparr>image_records = [], tracker_records =
        [\<lparr>frame_id = 7, timestamp = 3 / 2, point_cloud = [(Finite 30, Finite 0, Finite 1)]\<rparr>]\<rparr>] =
   (Some (SystemExit ''in/a_points.pbs does not exist''),
    \<lparr>artist = True, video_writer = False,
      trace = [Fig_Show, Imshow_Zeros (600, 600),
        Set_Data (Stamped (Raster (paint_markers [(300, 300)] (np_zeros 600 600))) ''7:1.50'')]\<rparr>)"
  using missing_input_ends_run [where d = id
      and a = "\<lparr>input_dir = ''in'', output_dir = None, radar_name = [], frame_rate = 10,
        quality_factor = 23, point_cloud_flag = True\<rparr>"
      and fs = "[''in/b_points.pbs'' \<mapsto> \<lparr>image_records = [], tracker_records =
        [\<lparr>frame_id = 7, timestamp = 3 / 2, point_cloud = [(Finite 30, Finite 0, Finite 1)]\<rparr>]\<rparr>]"
      and r = "''a''" and pre = "[''b'']" and post = "[''c'']"]
    run_b_alone
  by (simp add: exists_def join_def)

section \<open>Properties of \<^verbatim>\<open>point_cloud_viewer.main\<close>\<close>

lemma scatter_loop_pcv_trace:
  "scatter_loop_pcv pcs tr =
     tr @ concat (map (\<lambda>pc. [Scatter (map fst (point_cloud pc))
                               (map (\<lambda>q. fst (snd q)) (point_cloud pc)), Plt_Show])
                   (filter (\<lambda>pc. point_cloud pc \<noteq> []) pcs))"
  by (induction pcs arbitrary: tr) (simp_all add: Let_def)

lemma convert_point_cloud_stream_pcv_reads:
  assumes "fs p = Some f"
  shows "convert_point_cloud_stream_pcv fs p tr =
     (None, tr @ concat (map (\<lambda>pc. [Scatter (map fst (point_cloud pc))
                                       (map (\<lambda>q. fst (snd q)) (point_cloud pc)), Plt_Show])
                           (filter (\<lambda>pc. point_cloud pc \<noteq> []) (tracker_records f))))"
  using assms
  by (simp add: convert_point_cloud_stream_pcv_def RadarDataStreamer_def scatter_loop_pcv_trace)

lemma convert_point_cloud_stream_pcv_no_sink:
  "filter sink_event (snd (convert_point_cloud_stream_pcv fs p tr)) = filter sink_event tr"
  by (simp add: convert_point_cloud_stream_pcv_def RadarDataStreamer_def scatter_loop_pcv_trace
      filter_concat comp_def split: option.splits)

lemma sessions_loop_pcv_no_sink:
  assumes "\<not> artist st" and "\<not> video_writer st"
  shows "\<not> artist (snd (sessions_loop_pcv fs ios st))
       \<and> \<not> video_writer (snd (sessions_loop_pcv fs ios st))
       \<and> filter sink_event (trace (snd (sessions_loop_pcv fs ios st))) =
           filter sink_event (trace st)"
  using assms
proof (induction ios arbitrary: st)
  case Nil
  then show ?case by simp
next
  case (Cons io ios)
  obtain p out where io: "io = (p, out)" by (cases io)
  let ?st1 = "st\<lparr>video_writer := False,
      trace := trace st @ [Print (''writing out video file to '' @ str_of_path out)]\<rparr>"
  obtain res tr where c: "convert_point_cloud_stream_pcv fs p (trace ?st1) = (res, tr)"
    by (cases "convert_point_cloud_stream_pcv fs p (trace ?st1)")
  have tr: "filter sink_event tr = filter sink_event (trace st)"
    using convert_point_cloud_stream_pcv_no_sink [of fs p "trace ?st1"] c by simp
  show ?case
  proof (cases res)
    case None
    have "\<not> artist (?st1\<lparr>trace := tr\<rparr>)" and "\<not> video_writer (?st1\<lparr>trace := tr\<rparr>)"
      using Cons.prems by simp_all
    from Cons.IH [OF this] show ?thesis
      using c None tr by (simp add: io Let_def)
  next
    case (Some e)
    then show ?thesis using c tr Cons.prems by (simp add: io Let_def)
  qed
qed

text \<open>
  Claim C10 as stated fails. \<^verbatim>\<open>convert_point_cloud_stream\<close> of
  \<^verbatim>\<open>point_cloud_viewer.py\<close> contains no \<^verbatim>\<open>yield\<close>: the call in \<^verbatim>\<open>main\<close> runs its body.
  For a file with one record of one point the run reads the record and shows its
  scatter plot, so the record stream is consumed.
\<close>

theorem point_cloud_viewer_reads_records:
  "main_pcv
     \<lparr>input_dir = ''in'', output_dir = None, radar_name = [''r1''], frame_rate = 10,
      quality_factor = 23, point_cloud_flag = False\<rparr>
     [''in/r1_points.pbs'' \<mapsto> \<lparr>image_records = ([] :: unit radar_image list),
        tracker_records = [\<lparr>frame_id = 7, timestamp = 3 / 2, point_cloud = [(Finite 1, Finite 2, Finite 3)]\<rparr>]\<rparr>] =
   (None, \<lparr>artist = False, video_writer = False,
      trace = [Fig_Show, Print ''writing out video file to None'', Scatter [Finite 1] [Finite 2], Plt_Show]\<rparr>)"
  by (simp add: main_pcv_def input_output_paths_pcv_map io_path_of_pcv_def join_def Let_def
      convert_point_cloud_stream_pcv_def RadarDataStreamer_def str_of_path_def)

text \<open>
  Claim C10, amended. In \<^verbatim>\<open>point_cloud_viewer.main\<close> the per-frame loop is a string
  literal: no raster frame goes to the screen artist or to an encoder, neither is ever
  created, and \<^verbatim>\<open>video_writer\<close> is \<^verbatim>\<open>None\<close> at the end of every run. The call of
  \<^verbatim>\<open>convert_point_cloud_stream\<close> however is not lazy: for a file that exists it reads
  all records and shows a scatter plot for each one that has points.
\<close>

theorem point_cloud_viewer_no_frames:
  "\<not> video_writer (snd (main_pcv a fs))
   \<and> \<not> artist (snd (main_pcv a fs))
   \<and> filter sink_event (trace (snd (main_pcv a fs))) = []
   \<and> (fs p = Some f \<longrightarrow>
        convert_point_cloud_stream_pcv fs p tr =
          (None, tr @ concat (map (\<lambda>pc. [Scatter (map fst (point_cloud pc))
                                            (map (\<lambda>q. fst (snd q)) (point_cloud pc)), Plt_Show])
                                (filter (\<lambda>pc. point_cloud pc \<noteq> []) (tracker_records f)))))"
proof -
  let ?st0 = "\<lparr>artist = False, video_writer = False, trace = [Fig_Show]\<rparr>"
  have "\<not> artist ?st0" and "\<not> video_writer ?st0" by simp_all
  from sessions_loop_pcv_no_sink [OF this, of fs "input_output_paths_pcv a"]
  have "\<not> video_writer (snd (main_pcv a fs))" and "\<not> artist (snd (main_pcv a fs))"
    and "filter sink_event (trace (snd (main_pcv a fs))) = []"
    by (simp_all add: main_pcv_def)
  then show ?thesis
    by (simp add: convert_point_cloud_stream_pcv_reads)
qed

theorem point_cloud_viewer_no_frames_witness:
  "convert_point_cloud_stream_pcv
     [''in/r1_points.pbs'' \<mapsto> \<lparr>image_records = ([] :: unit radar_image list),
        tracker_records = [\<lparr>frame_id = 7, timestamp = 3 / 2, point_cloud = [(Finite 1, Finite 2, Finite 3)]\<rparr>,
          \<lparr>frame_id = 8, timestamp = 2, point_cloud = []\<rparr>]\<rparr>]
     ''in/r1_points.pbs'' [Fig_Show] =
   (None, [Fig_Show, Scatter [Finite 1] [Finite 2], Plt_Show])"
  using point_cloud_viewer_no_frames [where p = "''in/r1_points.pbs''"
      and fs = "[''in/r1_points.pbs'' \<mapsto> \<lparr>image_records = ([] :: unit radar_image list),
        tracker_records = [\<lparr>frame_id = 7, timestamp = 3 / 2, point_cloud = [(Finite 1, Finite 2, Finite 3)]\<rparr>,
          \<lparr>frame_id = 8, timestamp = 2, point_cloud = []\<rparr>]\<rparr>]"
      and tr = "[Fig_Show]", THEN conjunct2, THEN conjunct2, THEN conjunct2]
  by simp

end
